theory Spec2Isabelle
  imports Main
begin

section \<open>Python values, classes and exceptions\<close>

text \<open>
  The capsule loader of \<^verbatim>\<open>vcap/loading/capsule_loading.py\<close> inspects dynamically typed
  objects.  The embedding keeps just enough of the Python object model to run every test
  the loader performs: classes with an identity and their direct bases, a small universe
  of values, and exceptions as values of a sum type (\<open>Inl\<close> is a raised exception).
  Byte strings and text are both \<open>string\<close>; a path is the list of its components.
\<close>

type_synonym bytes = string
type_synonym path = "string list"

text \<open>A class object: its identity and its \<^verbatim>\<open>__bases__\<close> (the direct bases only).\<close>

datatype pyclass = PyClass (class_id: nat) (class_bases: "pyclass list")

text \<open>\<^verbatim>\<open>issubclass\<close>: the class itself or any class reachable through the bases.\<close>

fun issubclass :: "pyclass \<Rightarrow> pyclass \<Rightarrow> bool" where
  "issubclass (PyClass i bs) k = (i = class_id k \<or> list_ex (\<lambda>b. issubclass b k) bs)"

text \<open>
  Values.  \<open>PFunction\<close> is a Python function or a bound method (both expose
  \<^verbatim>\<open>__code__\<close> with \<^verbatim>\<open>co_varnames\<close> and \<^verbatim>\<open>co_argcount\<close>); \<open>PBuiltin\<close> is any
  other callable, which has no \<^verbatim>\<open>__code__\<close>; \<open>PObject\<close> is a plain instance with its
  class and every attribute that attribute lookup resolves on it.  Dictionaries are keyed
  by strings.
\<close>

datatype pyval =
    PNone
  | PBool bool
  | PInt int
  | PStr string
  | PList "pyval list"
  | PDict "(string \<times> pyval) list"
  | PFunction (co_varnames: "string list") (co_argcount: nat)
  | PBuiltin
  | PClassV pyclass
  | PObject pyclass "(string \<times> pyval) list"

text \<open>
  Exceptions.  The two error kinds of \<^verbatim>\<open>vcap.loading.errors\<close> carry the capsule name
  they were built with and a message; the message is kept as a structured \<open>reason\<close>
  holding the values the source interpolates into its f-strings.  \<open>OtherError\<close> stands
  for any further class derived from \<^verbatim>\<open>Exception\<close>.  \<^verbatim>\<open>SystemExit\<close> and
  \<^verbatim>\<open>KeyboardInterrupt\<close> derive from \<^verbatim>\<open>BaseException\<close> only: an
  \<^verbatim>\<open>except Exception\<close> clause does not catch them, which is what \<open>is_Exception\<close> tells.
\<close>

datatype pyexc =
    InvalidCapsuleError pyval reason
  | IncompatibleCapsuleError pyval reason
  | AttributeError string
  | KeyError string
  | IndexError
  | TypeError
  | ValueError
  | UnboundLocalError string
  | OtherError string
  | SystemExit
  | KeyboardInterrupt
and reason =
    MissingFile string
  | InvalidVersionFormat string
  | MajorMismatch nat
  | MinorTooNew nat nat
  | ExecFailed pyexc
  | BadName
  | BadConfiguration "bool list"
  | LeftoverAttribute string
  | BadLoader "bool list"
  | BadBackend "bool list"
  | BadStreamState "bool list"
  | NoThreshold
  | MissingAttributes pyexc
  | UnknownReasons pyexc

definition is_Exception :: "pyexc \<Rightarrow> bool" where
  "is_Exception ex = (case ex of SystemExit \<Rightarrow> False | KeyboardInterrupt \<Rightarrow> False | _ \<Rightarrow> True)"

text \<open>Sequencing of statements that may raise: the first exception ends the block.\<close>

definition and_then :: "('e + 'a) \<Rightarrow> ('a \<Rightarrow> 'e + 'b) \<Rightarrow> 'e + 'b" where
  "and_then m f = (case m of Inl e \<Rightarrow> Inl e | Inr v \<Rightarrow> f v)"

text \<open>\<^verbatim>\<open>d[k]\<close> on a dictionary: \<^verbatim>\<open>KeyError\<close> when the key is absent.\<close>

definition getitem :: "(string \<rightharpoonup> 'v) \<Rightarrow> string \<Rightarrow> pyexc + 'v" where
  "getitem d k = (case d k of None \<Rightarrow> Inl (KeyError k) | Some v \<Rightarrow> Inr v)"

section \<open>The compatibility version (lines 18-22 and 78-106)\<close>

definition MAJOR_COMPATIBLE_VERSION :: nat where
  "MAJOR_COMPATIBLE_VERSION = 0"

definition MINOR_COMPATIBLE_VERSION :: nat where
  "MINOR_COMPATIBLE_VERSION = 2"

definition is_digit :: "char \<Rightarrow> bool" where
  "is_digit c = (48 \<le> (of_char c :: nat) \<and> (of_char c :: nat) \<le> 57)"

text \<open>
  \<^verbatim>\<open>MAJOR_MINOR_SEMVER_PATTERN.fullmatch\<close> for the pattern \<^verbatim>\<open>([0-9]+)\.([0-9]+)\<close>: the
  two groups when the whole string matches.  The first group can only be the longest
  prefix of digits, because the character after it has to be the dot.
\<close>

definition semver_fullmatch :: "string \<Rightarrow> (string \<times> string) option" where
  "semver_fullmatch s =
     (let g1 = takeWhile is_digit s in
      case dropWhile is_digit s of
        [] \<Rightarrow> None
      | c # g2 \<Rightarrow>
          if c = CHR ''.'' \<and> g1 \<noteq> [] \<and> g2 \<noteq> [] \<and> list_all is_digit g2
          then Some (g1, g2) else None)"

text \<open>The number a string of ASCII digits denotes in base ten.\<close>

definition decimal :: "string \<Rightarrow> nat" where
  "decimal ds = foldl (\<lambda>n c. 10 * n + (of_char c - 48)) 0 ds"

text \<open>
  \<^verbatim>\<open>int\<close> on a string of ASCII digits.  Python's integers are unbounded, but the
  interpreter limits the number of digits a string may have when it is converted:
  with the limit \<open>max_str_digits\<close> (\<^verbatim>\<open>sys.get_int_max_str_digits()\<close>, 4300 unless the host
  changes it, 0 for no limit), \<^verbatim>\<open>int\<close> raises \<^verbatim>\<open>ValueError\<close> on a string of more than
  640 digits that has more digits than the limit.  Leading zeros count.
\<close>

definition py_int :: "nat \<Rightarrow> string \<Rightarrow> pyexc + nat" where
  "py_int max_str_digits ds =
     (if 640 < length ds \<and> 0 < max_str_digits \<and> max_str_digits < length ds
      then Inl ValueError
      else Inr (decimal ds))"

text \<open>
  Lines 78-106, under the digit limit \<open>max_str_digits\<close> of the interpreter.  In line 86
  the two conversions run in order and the two names are bound only after both have
  returned.  The handler of lines 87-91 therefore finds \<^verbatim>\<open>major\<close> unbound when it
  formats its message: reading it raises \<^verbatim>\<open>UnboundLocalError\<close>, and the
  \<^verbatim>\<open>InvalidCapsuleError\<close> of line 88 is never built.
\<close>

definition check_compatibility :: "nat \<Rightarrow> string \<Rightarrow> string \<Rightarrow> pyexc + unit" where
  "check_compatibility max_str_digits capsule_name compatibility_version =
     (case semver_fullmatch compatibility_version of
        None \<Rightarrow>
          Inl (InvalidCapsuleError (PStr capsule_name)
                 (InvalidVersionFormat compatibility_version))
      | Some (g1, g2) \<Rightarrow>
          (case and_then (py_int max_str_digits g1) (\<lambda>i1.
                and_then (py_int max_str_digits g2) (\<lambda>i2. Inr (i1, i2))) of
             Inl ex \<Rightarrow>
               (case ex of
                  ValueError \<Rightarrow> Inl (UnboundLocalError ''major'')
                | _ \<Rightarrow> Inl ex)
           | Inr (major, minor) \<Rightarrow>
               if major \<noteq> MAJOR_COMPATIBLE_VERSION
               then Inl (IncompatibleCapsuleError (PStr capsule_name) (MajorMismatch major))
               else if minor > MINOR_COMPATIBLE_VERSION
               then Inl (IncompatibleCapsuleError (PStr capsule_name) (MinorTooNew major minor))
               else Inr ()))"

section \<open>The plugin object and its validation (lines 165-285)\<close>

text \<open>
  The object built by \<^verbatim>\<open>capsule_module.Capsule(...)\<close>.  Nothing forces it to derive from
  \<^verbatim>\<open>BaseCapsule\<close>, so every attribute the validator reads may be absent (\<open>None\<close>: reading
  it raises \<^verbatim>\<open>AttributeError\<close>).  \<open>close_raises\<close> is what calling \<^verbatim>\<open>close()\<close> does:
  \<open>None\<close> when it returns, the exception when it raises.
\<close>

record capsule =
  name :: "pyval option"
  backend_loader :: "pyval option"
  version :: "pyval option"
  input_type :: "pyval option"
  output_type :: "pyval option"
  options :: "pyval option"
  backend_config :: "pyval option"
  backends :: "pyval option"
  stream_state :: "pyval option"
  capability :: "pyval option"
  close_raises :: "pyexc option"

text \<open>The built-in class \<^verbatim>\<open>object\<close>.\<close>

definition py_object :: pyclass where
  "py_object = PyClass 0 []"

text \<open>
  Modelled from the spec: the class \<^verbatim>\<open>BaseStreamState\<close>, the base stream-state type.  It
  is imported from \<^verbatim>\<open>vcap\<close> on line 11 and its declaration is not in the source file;
  only its identity enters the checks.
\<close>

definition BaseStreamState :: pyclass where
  "BaseStreamState = PyClass 1 [py_object]"

text \<open>
  Modelled from the spec: the class \<^verbatim>\<open>BaseBackend\<close>, the expected backend capability set,
  imported on line 11 as well.
\<close>

definition BaseBackend :: pyclass where
  "BaseBackend = PyClass 2 [py_object]"

text \<open>
  Modelled from the spec: the class \<^verbatim>\<open>NodeDescription\<close>, the type-descriptor shape of
  input and output types and of the capability flags, imported on line 11 as well.
\<close>

definition NodeDescription :: pyclass where
  "NodeDescription = PyClass 3 [py_object]"

text \<open>Reading an attribute of the capsule, and a \<^verbatim>\<open>raise InvalidCapsuleError(capsule.name, ...)\<close>
  statement, which reads \<^verbatim>\<open>capsule.name\<close> first.\<close>

definition attr :: "string \<Rightarrow> pyval option \<Rightarrow> pyexc + pyval" where
  "attr a v = (case v of None \<Rightarrow> Inl (AttributeError a) | Some x \<Rightarrow> Inr x)"

definition raise_invalid :: "capsule \<Rightarrow> reason \<Rightarrow> pyexc + 'a" where
  "raise_invalid c r =
     (case name c of
        None \<Rightarrow> Inl (AttributeError ''name'')
      | Some n \<Rightarrow> Inl (InvalidCapsuleError n r))"

definition getattribute :: "capsule \<Rightarrow> string \<Rightarrow> pyexc + pyval" where
  "getattribute c a =
     (if a = ''name'' then attr a (name c)
      else if a = ''backend_loader'' then attr a (backend_loader c)
      else if a = ''version'' then attr a (version c)
      else if a = ''input_type'' then attr a (input_type c)
      else if a = ''output_type'' then attr a (output_type c)
      else if a = ''options'' then attr a (options c)
      else if a = ''backend_config'' then attr a (backend_config c)
      else if a = ''backends'' then attr a (backends c)
      else if a = ''stream_state'' then attr a (stream_state c)
      else if a = ''capability'' then attr a (capability c)
      else Inl (AttributeError a))"

text \<open>Attribute lookup on any other object.\<close>

definition py_getattr :: "pyval \<Rightarrow> string \<Rightarrow> pyexc + pyval" where
  "py_getattr v a =
     (case v of
        PObject k attrs \<Rightarrow>
          (case map_of attrs a of None \<Rightarrow> Inl (AttributeError a) | Some x \<Rightarrow> Inr x)
      | _ \<Rightarrow> Inl (AttributeError a))"

definition py_callable :: "pyval \<Rightarrow> bool" where
  "py_callable v =
     (case v of PFunction vs n \<Rightarrow> True | PBuiltin \<Rightarrow> True | PClassV k \<Rightarrow> True | _ \<Rightarrow> False)"

definition isinstance_str :: "pyval \<Rightarrow> bool" where
  "isinstance_str v = (case v of PStr s \<Rightarrow> True | _ \<Rightarrow> False)"

text \<open>\<^verbatim>\<open>bool\<close> is a subclass of \<^verbatim>\<open>int\<close>.\<close>

definition isinstance_int :: "pyval \<Rightarrow> bool" where
  "isinstance_int v = (case v of PInt i \<Rightarrow> True | PBool b \<Rightarrow> True | _ \<Rightarrow> False)"

definition isinstance_dict :: "pyval \<Rightarrow> bool" where
  "isinstance_dict v = (case v of PDict d \<Rightarrow> True | _ \<Rightarrow> False)"

definition isinstance :: "pyval \<Rightarrow> pyclass \<Rightarrow> bool" where
  "isinstance v k = (case v of PObject k' attrs \<Rightarrow> issubclass k' k | _ \<Rightarrow> False)"

definition truthy :: "pyval \<Rightarrow> bool" where
  "truthy v =
     (case v of
        PNone \<Rightarrow> False
      | PBool b \<Rightarrow> b
      | PInt i \<Rightarrow> i \<noteq> 0
      | PStr s \<Rightarrow> s \<noteq> []
      | PList xs \<Rightarrow> xs \<noteq> []
      | PDict d \<Rightarrow> d \<noteq> []
      | _ \<Rightarrow> True)"

text \<open>\<^verbatim>\<open>x[0]\<close>.\<close>

definition subscript0 :: "pyval \<Rightarrow> pyexc + pyval" where
  "subscript0 v =
     (case v of
        PList xs \<Rightarrow> (case xs of [] \<Rightarrow> Inl IndexError | x # rest \<Rightarrow> Inr x)
      | PStr s \<Rightarrow> (case s of [] \<Rightarrow> Inl IndexError | ch # rest \<Rightarrow> Inr (PStr [ch]))
      | PDict d \<Rightarrow> Inl (KeyError ''0'')
      | _ \<Rightarrow> Inl TypeError)"

text \<open>\<^verbatim>\<open>x.__bases__\<close> and \<^verbatim>\<open>x.keys()\<close>.\<close>

definition bases_of :: "pyval \<Rightarrow> pyexc + pyclass list" where
  "bases_of v = (case v of PClassV k \<Rightarrow> Inr (class_bases k) | _ \<Rightarrow> Inl (AttributeError ''__bases__''))"

definition dict_keys :: "pyval \<Rightarrow> pyexc + string list" where
  "dict_keys v = (case v of PDict d \<Rightarrow> Inr (map fst d) | _ \<Rightarrow> Inl (AttributeError ''keys''))"

text \<open>\<^verbatim>\<open>x is k\<close> for a class \<open>k\<close>, and \<^verbatim>\<open>k in bases\<close>.\<close>

definition is_class :: "pyval \<Rightarrow> pyclass \<Rightarrow> bool" where
  "is_class v k = (case v of PClassV k' \<Rightarrow> class_id k' = class_id k | _ \<Rightarrow> False)"

definition class_in :: "pyclass \<Rightarrow> pyclass list \<Rightarrow> bool" where
  "class_in k bs = list_ex (\<lambda>b. class_id b = class_id k) bs"

text \<open>Lines 172-191.\<close>

definition check_arg_names :: "pyval \<Rightarrow> string list \<Rightarrow> string list option \<Rightarrow> pyexc + bool" where
  "check_arg_names func correct ignore =
     (case func of
        PFunction all_var_names argcount \<Rightarrow>
          (let ignore' = (case ignore of None \<Rightarrow> [] | Some i \<Rightarrow> i);
               arg_names = take argcount all_var_names;
               filtered = filter (\<lambda>n. n \<notin> set ignore') arg_names
           in Inr (filtered = correct))
      | _ \<Rightarrow> Inl (AttributeError ''__code__''))"

text \<open>Lines 197-201: \<^verbatim>\<open>re.fullmatch(r"\w+", capsule.name, flags=re.ASCII)\<close>.\<close>

definition is_word_char :: "char \<Rightarrow> bool" where
  "is_word_char c =
     (let n = (of_char c :: nat) in
      (48 \<le> n \<and> n \<le> 57) \<or> (65 \<le> n \<and> n \<le> 90) \<or> (97 \<le> n \<and> n \<le> 122) \<or> n = 95)"

definition check_name :: "capsule \<Rightarrow> pyexc + unit" where
  "check_name c =
     and_then (attr ''name'' (name c)) (\<lambda>n.
       case n of
         PStr s \<Rightarrow>
           if s \<noteq> [] \<and> list_all is_word_char s then Inr ()
           else raise_invalid c BadName
       | _ \<Rightarrow> Inl TypeError)"

text \<open>Lines 203-216.\<close>

definition check_capsule_assertions :: "capsule \<Rightarrow> pyexc + unit" where
  "check_capsule_assertions c =
     and_then (attr ''name'' (name c)) (\<lambda>n.
     and_then (attr ''backend_loader'' (backend_loader c)) (\<lambda>bl.
     and_then (attr ''version'' (version c)) (\<lambda>v.
     and_then (attr ''input_type'' (input_type c)) (\<lambda>it.
     and_then (attr ''output_type'' (output_type c)) (\<lambda>ot.
     and_then (attr ''options'' (options c)) (\<lambda>op.
       (let capsule_assertions =
              [isinstance_str n, py_callable bl, isinstance_int v,
               isinstance it NodeDescription, isinstance ot NodeDescription,
               isinstance_dict op]
        in if \<not> list_all id capsule_assertions
           then raise_invalid c (BadConfiguration capsule_assertions)
           else Inr ())))))))"

text \<open>
  Lines 218-231.  The \<^verbatim>\<open>raise\<close> stands inside the inner \<^verbatim>\<open>try\<close>, so an
  \<^verbatim>\<open>AttributeError\<close> from reading \<^verbatim>\<open>capsule.name\<close> there is swallowed as well.
\<close>

definition unwanted_attributes :: "string list" where
  "unwanted_attributes = [''backend_config'']"

fun check_unwanted :: "capsule \<Rightarrow> string list \<Rightarrow> pyexc + unit" where
  "check_unwanted c [] = Inr ()"
| "check_unwanted c (unwanted_attr # rest) =
     (case getattribute c unwanted_attr of
        Inl e \<Rightarrow> check_unwanted c rest
      | Inr v \<Rightarrow>
          (case name c of
             None \<Rightarrow> check_unwanted c rest
           | Some n \<Rightarrow> Inl (InvalidCapsuleError n (LeftoverAttribute unwanted_attr))))"

text \<open>Lines 233-242: \<^verbatim>\<open>check_arg_names\<close> is called without \<^verbatim>\<open>ignore\<close>.\<close>

definition check_loader :: "capsule \<Rightarrow> pyexc + unit" where
  "check_loader c =
     and_then (attr ''backend_loader'' (backend_loader c)) (\<lambda>loader.
     and_then (check_arg_names loader [''capsule_files'', ''device''] None) (\<lambda>names_ok.
       (let loader_assertions = [py_callable loader, names_ok]
        in if \<not> list_all id loader_assertions
           then raise_invalid c (BadLoader loader_assertions)
           else Inr ())))"

text \<open>Lines 244-256.\<close>

definition check_backend :: "capsule \<Rightarrow> pyexc + unit" where
  "check_backend c =
     and_then (attr ''backends'' (backends c)) (\<lambda>bs.
       if bs = PNone then Inr ()
       else
         and_then (subscript0 bs) (\<lambda>backend.
         and_then (py_getattr backend ''batch_predict'') (\<lambda>bp.
         and_then (py_getattr backend ''process_frame'') (\<lambda>pf.
         and_then (py_getattr backend ''close'') (\<lambda>cl.
           (let backend_assertions =
                  [py_callable bp, py_callable pf, py_callable cl,
                   isinstance backend BaseBackend]
            in if \<not> list_all id backend_assertions
               then raise_invalid c (BadBackend backend_assertions)
               else Inr ()))))))"

text \<open>Lines 258-267.\<close>

definition check_stream_state :: "capsule \<Rightarrow> pyexc + unit" where
  "check_stream_state c =
     and_then (attr ''stream_state'' (stream_state c)) (\<lambda>ss.
     and_then (if is_class ss BaseStreamState then Inr True
               else and_then (bases_of ss) (\<lambda>bs. Inr (class_in BaseStreamState bs)))
       (\<lambda>ok.
         (let stream_state_assertions = [ok]
          in if \<not> list_all id stream_state_assertions
             then raise_invalid c (BadStreamState stream_state_assertions)
             else Inr ())))"

text \<open>Lines 269-275.\<close>

definition check_encoder :: "capsule \<Rightarrow> pyexc + unit" where
  "check_encoder c =
     and_then (attr ''capability'' (capability c)) (\<lambda>cap.
     and_then (py_getattr cap ''encoded'') (\<lambda>encoded.
       if truthy encoded
       then and_then (attr ''options'' (options c)) (\<lambda>opts.
            and_then (dict_keys opts) (\<lambda>ks.
              if ''recognition_threshold'' \<notin> set ks
              then raise_invalid c NoThreshold
              else Inr ()))
       else Inr ()))"

text \<open>The body of the \<^verbatim>\<open>try\<close> (lines 194-275), in the order of the source.\<close>

definition validate_checks :: "capsule \<Rightarrow> pyexc + unit" where
  "validate_checks c =
     and_then (check_name c) (\<lambda>u1.
     and_then (check_capsule_assertions c) (\<lambda>u2.
     and_then (check_unwanted c unwanted_attributes) (\<lambda>u3.
     and_then (check_loader c) (\<lambda>u4.
     and_then (check_backend c) (\<lambda>u5.
     and_then (check_stream_state c) (\<lambda>u6.
       check_encoder c))))))"

text \<open>
  \<^verbatim>\<open>_validate_capsule\<close> with its handlers (lines 276-285), named without the leading
  underscore: an \<^verbatim>\<open>InvalidCapsuleError\<close> passes through, and each of the two other
  handlers raises a new \<^verbatim>\<open>InvalidCapsuleError(capsule.name, ...)\<close>.
\<close>

definition validate_capsule :: "capsule \<Rightarrow> pyexc + unit" where
  "validate_capsule c =
     (case validate_checks c of
        Inr u \<Rightarrow> Inr u
      | Inl e \<Rightarrow>
          (case e of
             InvalidCapsuleError n r \<Rightarrow> Inl e
           | AttributeError a \<Rightarrow> raise_invalid c (MissingAttributes e)
           | _ \<Rightarrow>
               if is_Exception e then raise_invalid c (UnknownReasons e) else Inl e))"

section \<open>Loading (lines 25-139 and 288-291)\<close>

text \<open>
  A zip archive is the list of its entries in file-table order; \<^verbatim>\<open>read\<close> returns the
  entry that the archive's name table holds for a name, which is the last one, and is
  taken to succeed for every name of the file table.
  \<^verbatim>\<open>loaded_files\<close> is a dictionary from names to contents.  The parsed
  \<^verbatim>\<open>ConfigParser\<close> is a dictionary of sections, and a section gives, for each option
  it resolves, what reading the option does: the interpolated value, or the interpolation
  error that the read raises.

  \<^verbatim>\<open>load_capsule_from_bytes\<close> is one function in the source.  Its consecutive blocks are
  defined one by one below, each under the lines it embeds, and
  \<open>load_capsule_from_bytes\<close> at the end of this section puts them together in the order
  of the source.
\<close>

type_synonym zip_entries = "(string \<times> bytes) list"
type_synonym files = "string \<rightharpoonup> bytes"
type_synonym config = "string \<rightharpoonup> (string \<rightharpoonup> (pyexc + string))"

definition namelist :: "zip_entries \<Rightarrow> string list" where
  "namelist zf = map fst zf"

definition zip_read :: "zip_entries \<Rightarrow> string \<Rightarrow> bytes option" where
  "zip_read zf n = map_of (rev zf) n"

text \<open>The module object left by \<^verbatim>\<open>exec\<close>: its \<^verbatim>\<open>Capsule\<close> symbol, when bound, is called
  with \<^verbatim>\<open>capsule_files\<close> and \<^verbatim>\<open>inference_mode\<close>.\<close>

record pymodule =
  Capsule :: "(files \<Rightarrow> bool \<Rightarrow> pyexc + capsule) option"

text \<open>The entries of \<^verbatim>\<open>sys.meta_path\<close>: the finders of the host, the finder the loader
  builds for an archive, and finders that plugin code installs.\<close>

datatype finder = HostFinder nat | ZipFinder zip_entries path string | PluginFinder nat

text \<open>
  What the loader uses and the source file does not define: the two file names of
  \<^verbatim>\<open>vcap.loading.packaging\<close>, SHA-256, \<^verbatim>\<open>decrypt\<close>, the zip reader, UTF-8 decoding,
  \<^verbatim>\<open>ConfigParser.read_string\<close>, the interpreter's digit limit for \<^verbatim>\<open>int\<close>, and
  \<^verbatim>\<open>compile\<close> followed by \<^verbatim>\<open>exec\<close>.  Evaluation runs the plugin's code under the
  import finders active at that moment; the code may change \<^verbatim>\<open>sys.meta_path\<close> itself,
  so \<open>exec_code\<close> returns, with the module or the exception, the list it leaves behind.
\<close>

record env =
  CAPSULE_FILE_NAME :: string
  META_FILE_NAME :: string
  sha256_hexdigest :: "bytes \<Rightarrow> string"
  decrypt :: "string \<Rightarrow> bytes \<Rightarrow> pyexc + bytes"
  ZipFile :: "bytes \<Rightarrow> pyexc + zip_entries"
  utf8_decode :: "bytes \<Rightarrow> pyexc + string"
  read_string :: "string \<Rightarrow> pyexc + config"
  int_max_str_digits :: nat
  exec_code :: "bytes option \<Rightarrow> path \<Rightarrow> finder list \<Rightarrow> (pyexc + pymodule) \<times> finder list"

text \<open>The state the loader changes: \<^verbatim>\<open>sys.meta_path\<close>, and the calls it makes into the
  plugin after evaluation (the constructor with its arguments, \<^verbatim>\<open>close\<close>).\<close>

datatype call = Constructed files bool | Closed capsule

record world =
  meta_path :: "finder list"
  calls :: "call list"

text \<open>Lines 288-291.\<close>

definition capsule_module_name :: "env \<Rightarrow> bytes \<Rightarrow> string" where
  "capsule_module_name e data = ''capsule_'' @ sha256_hexdigest e data"

text \<open>Lines 63-70: the loop over \<^verbatim>\<open>namelist()\<close>, from \<^verbatim>\<open>code = None\<close> and
  \<^verbatim>\<open>loaded_files = {}\<close>.\<close>

definition read_files :: "env \<Rightarrow> zip_entries \<Rightarrow> bytes option \<times> files" where
  "read_files e zf =
     fold (\<lambda>n (code, loaded_files).
             if n = CAPSULE_FILE_NAME e
             then (zip_read zf (CAPSULE_FILE_NAME e), loaded_files)
             else (code, loaded_files(n := zip_read zf n)))
          (namelist zf) (None, Map.empty)"

text \<open>Lines 46-76: decryption, the archive, the two required entries, the loop, and the
  compatibility string of the meta descriptor.\<close>

definition read_archive ::
  "env \<Rightarrow> string \<Rightarrow> bytes \<Rightarrow> string option
     \<Rightarrow> pyexc + (zip_entries \<times> bytes option \<times> files \<times> string)" where
  "read_archive e capsule_name data key =
     and_then (case key of None \<Rightarrow> Inr data | Some k \<Rightarrow> decrypt e k data) (\<lambda>data'.
     and_then (ZipFile e data') (\<lambda>capsule_file.
       if CAPSULE_FILE_NAME e \<notin> set (namelist capsule_file)
       then Inl (InvalidCapsuleError (PStr capsule_name) (MissingFile (CAPSULE_FILE_NAME e)))
       else if META_FILE_NAME e \<notin> set (namelist capsule_file)
       then Inl (InvalidCapsuleError (PStr capsule_name) (MissingFile (META_FILE_NAME e)))
       else
         (case read_files e capsule_file of (code, loaded_files) \<Rightarrow>
            and_then (getitem loaded_files (META_FILE_NAME e)) (\<lambda>meta_bytes.
            and_then (utf8_decode e meta_bytes) (\<lambda>meta_text.
            and_then (read_string e meta_text) (\<lambda>meta_conf.
            and_then (getitem meta_conf ''about'') (\<lambda>about.
            and_then (getitem about ''api_compatibility_version'') (\<lambda>read_option.
            and_then read_option (\<lambda>compatibility_version.
              Inr (capsule_file, code, loaded_files, compatibility_version))))))))))"

text \<open>\<^verbatim>\<open>list.insert(i, x)\<close> and \<^verbatim>\<open>list.pop(i)\<close> for an index \<open>i \<ge> 0\<close>: insertion past the
  end appends, \<^verbatim>\<open>pop\<close> past the end raises \<^verbatim>\<open>IndexError\<close>.\<close>

definition list_insert :: "nat \<Rightarrow> 'a \<Rightarrow> 'a list \<Rightarrow> 'a list" where
  "list_insert i x xs = take i xs @ [x] @ drop i xs"

definition list_pop :: "nat \<Rightarrow> 'a list \<Rightarrow> pyexc + 'a list" where
  "list_pop i xs = (if i < length xs then Inr (take i xs @ drop (Suc i) xs) else Inl IndexError)"

text \<open>
  Lines 108-126.  The finder is inserted at index 1 and the code is evaluated, which
  leaves the list \<open>evaluated_path\<close>.  The handler of line 119 wraps what derives from
  \<^verbatim>\<open>Exception\<close> and lets \<^verbatim>\<open>SystemExit\<close> and \<^verbatim>\<open>KeyboardInterrupt\<close> pass.  The
  \<^verbatim>\<open>finally\<close> block then pops index 1 of the list as it is by then, whatever the
  outcome; an exception raised by \<^verbatim>\<open>pop\<close> itself replaces the outcome of the
  \<^verbatim>\<open>try\<close>.
\<close>

definition execute_capsule ::
  "env \<Rightarrow> zip_entries \<Rightarrow> bytes option \<Rightarrow> path \<Rightarrow> string \<Rightarrow> world
     \<Rightarrow> (pyexc + pymodule) \<times> world" where
  "execute_capsule e capsule_file code source_path capsule_name w =
     (let inserted =
            list_insert 1 (ZipFinder capsule_file source_path capsule_name) (meta_path w)
      in case exec_code e code (source_path @ [CAPSULE_FILE_NAME e]) inserted of
           (evaluated, evaluated_path) \<Rightarrow>
             (let outcome =
                    (case evaluated of
                       Inl ex \<Rightarrow>
                         if is_Exception ex
                         then Inl (InvalidCapsuleError (PStr capsule_name) (ExecFailed ex))
                         else Inl ex
                     | Inr m \<Rightarrow> Inr m)
              in case list_pop 1 evaluated_path of
                   Inl ex \<Rightarrow> (Inl ex, w\<lparr>meta_path := evaluated_path\<rparr>)
                 | Inr popped \<Rightarrow> (outcome, w\<lparr>meta_path := popped\<rparr>)))"

text \<open>Lines 133-139.\<close>

definition validate_or_close :: "capsule \<Rightarrow> world \<Rightarrow> (pyexc + capsule) \<times> world" where
  "validate_or_close new_capsule w =
     (case validate_capsule new_capsule of
        Inr u \<Rightarrow> (Inr new_capsule, w)
      | Inl e \<Rightarrow>
          (case e of
             InvalidCapsuleError n r \<Rightarrow>
               (let w' = w\<lparr>calls := calls w @ [Closed new_capsule]\<rparr>
                in case close_raises new_capsule of
                     None \<Rightarrow> (Inl e, w')
                   | Some ex \<Rightarrow> (Inl ex, w'))
           | _ \<Rightarrow> (Inl e, w)))"

text \<open>Lines 128-139: the constructor call, then validation.\<close>

definition construct_and_validate ::
  "pymodule \<Rightarrow> files \<Rightarrow> bool \<Rightarrow> world \<Rightarrow> (pyexc + capsule) \<times> world" where
  "construct_and_validate m loaded_files inference_mode w =
     (case Capsule m of
        None \<Rightarrow> (Inl (AttributeError ''Capsule''), w)
      | Some ctor \<Rightarrow>
          (let w' = w\<lparr>calls := calls w @ [Constructed loaded_files inference_mode]\<rparr>
           in case ctor loaded_files inference_mode of
                Inl ex \<Rightarrow> (Inl ex, w')
              | Inr new_capsule \<Rightarrow> validate_or_close new_capsule w'))"

text \<open>Lines 108-139: evaluation, then the constructor and validation.\<close>

definition run_capsule ::
  "env \<Rightarrow> zip_entries \<Rightarrow> bytes option \<Rightarrow> path \<Rightarrow> string \<Rightarrow> files \<Rightarrow> bool \<Rightarrow> world
     \<Rightarrow> (pyexc + capsule) \<times> world" where
  "run_capsule e capsule_file code source_path capsule_name loaded_files inference_mode w =
     (case execute_capsule e capsule_file code source_path capsule_name w of
        (Inl ex, w1) \<Rightarrow> (Inl ex, w1)
      | (Inr m, w1) \<Rightarrow> construct_and_validate m loaded_files inference_mode w1)"

text \<open>\<^verbatim>\<open>load_capsule_from_bytes\<close> (lines 25-139).\<close>

definition source_path_or_dummy :: "path option \<Rightarrow> string \<Rightarrow> path" where
  "source_path_or_dummy source_path capsule_name =
     (case source_path of None \<Rightarrow> [''/'', capsule_name] | Some p \<Rightarrow> p)"

definition load_capsule_from_bytes ::
  "env \<Rightarrow> bytes \<Rightarrow> path option \<Rightarrow> string option \<Rightarrow> bool \<Rightarrow> world
     \<Rightarrow> (pyexc + capsule) \<times> world" where
  "load_capsule_from_bytes e data source_path key inference_mode w =
     (let capsule_name = capsule_module_name e data;
          source_path' = source_path_or_dummy source_path capsule_name
      in case read_archive e capsule_name data key of
           Inl ex \<Rightarrow> (Inl ex, w)
         | Inr (capsule_file, code, loaded_files, compatibility_version) \<Rightarrow>
             (case check_compatibility (int_max_str_digits e) capsule_name
                     compatibility_version of
                Inl ex \<Rightarrow> (Inl ex, w)
              | Inr u \<Rightarrow>
                  run_capsule e capsule_file code source_path' capsule_name
                    loaded_files inference_mode w))"

section \<open>The language of the version pattern, and concrete hosts and plugins\<close>

text \<open>
  The strings the pattern \<^verbatim>\<open>[0-9]+\.[0-9]+\<close> matches in full, stated without reference
  to the matcher: two non-empty runs of ASCII digits with one dot between them.  A string
  that fails \<^verbatim>\<open>\d+\.\d+\<close> is outside this language as well, because \<^verbatim>\<open>[0-9]\<close> is
  contained in \<^verbatim>\<open>\d\<close>.
\<close>

definition matches_major_minor :: "string \<Rightarrow> bool" where
  "matches_major_minor s =
     (\<exists>d1 d2. d1 \<noteq> [] \<and> d2 \<noteq> [] \<and> list_all is_digit d1 \<and> list_all is_digit d2 \<and>
        s = d1 @ CHR ''.'' # d2)"

text \<open>
  An archive with the code entry, a meta entry of content \<open>meta\<close> and one model file; the
  files the loop reads out of it; and a host whose collaborators are fixed for that
  archive: the zip reader yields its entries, \<open>read_string\<close> yields \<open>conf\<close>, which stands
  for what \<^verbatim>\<open>ConfigParser\<close> makes of \<open>meta\<close> (a configuration, or an exception), the
  digit limit is the interpreter's default, and evaluating the code yields \<open>outcome\<close> and
  leaves \<^verbatim>\<open>sys.meta_path\<close> as it found it.
\<close>

definition example_zip :: "bytes \<Rightarrow> zip_entries" where
  "example_zip meta =
     [(''capsule.py'', ''class Capsule(BaseCapsule): ...''),
      (''meta.conf'', meta),
      (''detector.pb'', ''weights'')]"

definition example_files :: "bytes \<Rightarrow> files" where
  "example_files meta = [''meta.conf'' \<mapsto> meta, ''detector.pb'' \<mapsto> ''weights'']"

definition host_env :: "bytes \<Rightarrow> (pyexc + config) \<Rightarrow> (pyexc + pymodule) \<Rightarrow> env" where
  "host_env meta conf outcome =
     \<lparr>CAPSULE_FILE_NAME = ''capsule.py'',
      META_FILE_NAME = ''meta.conf'',
      sha256_hexdigest = (\<lambda>data. ''5f2a''),
      decrypt = (\<lambda>k data. Inr data),
      ZipFile = (\<lambda>data. Inr (example_zip meta)),
      utf8_decode = (\<lambda>b. Inr b),
      read_string = (\<lambda>t. conf),
      int_max_str_digits = 4300,
      exec_code = (\<lambda>code p finders. (outcome, finders))\<rparr>"

text \<open>
  The meta descriptor that declares the compatibility version \<open>v\<close>, its parse, and the
  host for the archive that carries it.
\<close>

definition meta_text :: "string \<Rightarrow> bytes" where
  "meta_text v = ''[about]'' @ [CHR 0x0A] @ ''api_compatibility_version = '' @ v"

definition meta_conf_with :: "string \<Rightarrow> config" where
  "meta_conf_with v = [''about'' \<mapsto> [''api_compatibility_version'' \<mapsto> Inr v]]"

definition version_host :: "string \<Rightarrow> (pyexc + pymodule) \<Rightarrow> env" where
  "version_host v outcome = host_env (meta_text v) (Inr (meta_conf_with v)) outcome"


text \<open>A compatibility string whose major has 4301 digits.\<close>

definition long_version :: string where
  "long_version = replicate 4301 CHR ''1'' @ ''.0''"

definition host_world :: world where
  "host_world = \<lparr>meta_path = [HostFinder 0, HostFinder 1, HostFinder 2], calls = []\<rparr>"

text \<open>A plugin that passes every check, and the module whose \<^verbatim>\<open>Capsule\<close> builds a given
  plugin object.\<close>

definition good_capsule :: capsule where
  "good_capsule =
     \<lparr>name = Some (PStr ''detector_person''),
      backend_loader = Some (PFunction [''capsule_files'', ''device''] 2),
      version = Some (PInt 1),
      input_type = Some (PObject NodeDescription []),
      output_type = Some (PObject NodeDescription []),
      options = Some (PDict []),
      backend_config = None,
      backends = Some PNone,
      stream_state = Some (PClassV BaseStreamState),
      capability = Some (PObject NodeDescription [(''encoded'', PBool False)]),
      close_raises = None\<rparr>"

definition module_building :: "capsule \<Rightarrow> pymodule" where
  "module_building c = \<lparr>Capsule = Some (\<lambda>capsule_files inference_mode. Inr c)\<rparr>"

text \<open>
  A loader declared as a method, \<^verbatim>\<open>def backend_loader(self, capsule_files, device)\<close>; a
  stream state two levels below \<^verbatim>\<open>BaseStreamState\<close>
  (\<^verbatim>\<open>class Tracked(BaseStreamState)\<close>, \<^verbatim>\<open>class Counted(Tracked)\<close>); the capability of
  an encoder.
\<close>

definition method_loader :: pyval where
  "method_loader = PFunction [''self'', ''capsule_files'', ''device''] 3"

definition Tracked :: pyclass where
  "Tracked = PyClass 10 [BaseStreamState]"

definition Counted :: pyclass where
  "Counted = PyClass 11 [Tracked]"

definition encoder_capability :: pyval where
  "encoder_capability = PObject NodeDescription [(''encoded'', PBool True)]"

section \<open>Auxiliary facts\<close>

lemma and_then_simps [simp]:
  "and_then (Inl e) f = Inl e"
  "and_then (Inr v) f = f v"
  by (simp_all add: and_then_def)

lemma and_then_eq_Inr: "and_then m f = Inr y \<longleftrightarrow> (\<exists>v. m = Inr v \<and> f v = Inr y)"
  by (cases m) simp_all

lemma and_then_unit_eq_Inr:
  "and_then (m :: pyexc + unit) f = Inr y \<longleftrightarrow> m = Inr () \<and> f () = Inr y"
  by (cases m) simp_all

lemma and_then_eq_Inl:
  "and_then m f = Inl e \<longleftrightarrow> m = Inl e \<or> (\<exists>v. m = Inr v \<and> f v = Inl e)"
  by (cases m) simp_all

subsection \<open>The matcher against the language of the pattern\<close>

lemma dot_not_digit: "\<not> is_digit CHR ''.''"
  by (simp add: is_digit_def)

lemma semver_fullmatch_groups:
  assumes "d1 \<noteq> []" "d2 \<noteq> []" "list_all is_digit d1" "list_all is_digit d2"
  shows "semver_fullmatch (d1 @ CHR ''.'' # d2) = Some (d1, d2)"
proof -
  have t: "takeWhile is_digit (d1 @ CHR ''.'' # d2) = d1"
    using assms(3) dot_not_digit by (simp add: list_all_iff takeWhile_tail)
  have d: "dropWhile is_digit (d1 @ CHR ''.'' # d2) = CHR ''.'' # d2"
    using assms(3) dot_not_digit by (simp add: list_all_iff dropWhile_append3)
  show ?thesis
    using assms by (simp add: semver_fullmatch_def t d)
qed

lemma semver_fullmatch_SomeD:
  assumes "semver_fullmatch s = Some (g1, g2)"
  shows "g1 \<noteq> [] \<and> g2 \<noteq> [] \<and> list_all is_digit g1 \<and> list_all is_digit g2 \<and>
         s = g1 @ CHR ''.'' # g2"
proof -
  obtain c r where dr: "dropWhile is_digit s = c # r"
    using assms by (cases "dropWhile is_digit s") (auto simp: semver_fullmatch_def)
  from assms dr have c: "c = CHR ''.''" and g1: "g1 = takeWhile is_digit s" and g2: "g2 = r"
    and ne: "g1 \<noteq> []" "g2 \<noteq> []" and dg: "list_all is_digit g2"
    by (auto simp: semver_fullmatch_def Let_def split: if_splits)
  have "s = takeWhile is_digit s @ dropWhile is_digit s" by simp
  then have "s = g1 @ CHR ''.'' # g2" using dr c g1 g2 by simp
  moreover have "list_all is_digit g1"
    unfolding g1 list_all_iff by (auto dest: set_takeWhileD)
  ultimately show ?thesis using ne dg by simp
qed

lemma semver_fullmatch_None_iff: "semver_fullmatch s = None \<longleftrightarrow> \<not> matches_major_minor s"
proof
  assume n: "semver_fullmatch s = None"
  show "\<not> matches_major_minor s"
  proof
    assume "matches_major_minor s"
    then obtain d1 d2 where "d1 \<noteq> []" "d2 \<noteq> []" "list_all is_digit d1" "list_all is_digit d2"
      "s = d1 @ CHR ''.'' # d2"
      unfolding matches_major_minor_def by blast
    then have "semver_fullmatch s = Some (d1, d2)"
      using semver_fullmatch_groups by simp
    with n show False by simp
  qed
next
  assume m: "\<not> matches_major_minor s"
  show "semver_fullmatch s = None"
  proof (cases "semver_fullmatch s")
    case None
    then show ?thesis .
  next
    case (Some p)
    obtain g1 g2 where "p = (g1, g2)" by (cases p)
    with Some semver_fullmatch_SomeD[of s g1 g2] have "matches_major_minor s"
      unfolding matches_major_minor_def by blast
    with m show ?thesis by simp
  qed
qed

subsection \<open>The example host\<close>

lemma host_env_sel:
  "CAPSULE_FILE_NAME (host_env meta conf outcome) = ''capsule.py''"
  "META_FILE_NAME (host_env meta conf outcome) = ''meta.conf''"
  "sha256_hexdigest (host_env meta conf outcome) data = ''5f2a''"
  "decrypt (host_env meta conf outcome) k data = Inr data"
  "ZipFile (host_env meta conf outcome) data = Inr (example_zip meta)"
  "utf8_decode (host_env meta conf outcome) b = Inr b"
  "read_string (host_env meta conf outcome) t = conf"
  "int_max_str_digits (host_env meta conf outcome) = 4300"
  "exec_code (host_env meta conf outcome) code p finders = (outcome, finders)"
  by (simp_all add: host_env_def)

lemma namelist_example:
  "namelist (example_zip meta) = [''capsule.py'', ''meta.conf'', ''detector.pb'']"
  by (simp add: namelist_def example_zip_def)

lemma read_files_example:
  "read_files (host_env meta' conf outcome) (example_zip meta) =
     (Some ''class Capsule(BaseCapsule): ...'', example_files meta)"
  by (simp add: read_files_def host_env_sel namelist_example example_files_def)
     (simp add: example_zip_def zip_read_def)

lemma example_files_meta: "example_files meta ''meta.conf'' = Some meta"
  by (simp add: example_files_def)

lemma read_archive_host:
  "read_archive (host_env meta (Inr conf) outcome) nm data None =
     and_then (getitem conf ''about'') (\<lambda>about.
     and_then (getitem about ''api_compatibility_version'') (\<lambda>read_option.
     and_then read_option (\<lambda>compatibility_version.
       Inr (example_zip meta, Some ''class Capsule(BaseCapsule): ...'', example_files meta,
            compatibility_version))))"
  by (simp add: read_archive_def read_files_example host_env_sel namelist_example getitem_def
        example_files_meta)

lemma read_archive_example:
  "read_archive (version_host v outcome) nm data None =
     Inr (example_zip (meta_text v), Some ''class Capsule(BaseCapsule): ...'',
          example_files (meta_text v), v)"
  by (simp add: version_host_def read_archive_host getitem_def meta_conf_with_def)

lemma check_compatibility_0_2: "check_compatibility limit nm ''0.2'' = Inr ()"
  by (simp add: check_compatibility_def semver_fullmatch_def is_digit_def py_int_def
        decimal_def MAJOR_COMPATIBLE_VERSION_def MINOR_COMPATIBLE_VERSION_def)

lemma execute_capsule_host:
  "execute_capsule (host_env meta conf outcome) zf code p nm host_world =
     ((case outcome of
         Inl ex \<Rightarrow>
           if is_Exception ex then Inl (InvalidCapsuleError (PStr nm) (ExecFailed ex))
           else Inl ex
       | Inr m \<Rightarrow> Inr m), host_world)"
  by (simp add: execute_capsule_def host_env_sel list_insert_def list_pop_def host_world_def)

lemma execute_capsule_example:
  "execute_capsule (version_host v outcome) zf code p nm host_world =
     ((case outcome of
         Inl ex \<Rightarrow>
           if is_Exception ex then Inl (InvalidCapsuleError (PStr nm) (ExecFailed ex))
           else Inl ex
       | Inr m \<Rightarrow> Inr m), host_world)"
  by (simp add: version_host_def execute_capsule_host)

lemma is_Exception_simps [simp]:
  "is_Exception TypeError" "is_Exception IndexError" "is_Exception ValueError"
  "is_Exception (AttributeError a)" "is_Exception (KeyError k)" "is_Exception (OtherError t)"
  "is_Exception (UnboundLocalError v)" "is_Exception (InvalidCapsuleError n r)"
  "is_Exception (IncompatibleCapsuleError n r)"
  "\<not> is_Exception SystemExit" "\<not> is_Exception KeyboardInterrupt"
  by (simp_all add: is_Exception_def)

lemma capsule_module_name_host:
  "capsule_module_name (host_env meta conf outcome) data = ''capsule_5f2a''"
  by (simp add: capsule_module_name_def host_env_sel)

lemma capsule_module_name_example:
  "capsule_module_name (version_host v outcome) data = ''capsule_5f2a''"
  by (simp add: version_host_def capsule_module_name_host)

lemma version_host_names:
  "CAPSULE_FILE_NAME (version_host v outcome) = ''capsule.py''"
  "META_FILE_NAME (version_host v outcome) = ''meta.conf''"
  "int_max_str_digits (version_host v outcome) = 4300"
  "exec_code (version_host v outcome) code p finders = (outcome, finders)"
  by (simp_all add: version_host_def host_env_sel)

subsection \<open>Loading, stage by stage\<close>

lemma load_after_archive:
  assumes "read_archive e (capsule_module_name e data) data key = Inr (zf, code, loaded_files, s)"
  shows "load_capsule_from_bytes e data sp key mode w =
           (case check_compatibility (int_max_str_digits e) (capsule_module_name e data) s of
              Inl ex \<Rightarrow> (Inl ex, w)
            | Inr u \<Rightarrow>
                run_capsule e zf code (source_path_or_dummy sp (capsule_module_name e data))
                  (capsule_module_name e data) loaded_files mode w)"
  using assms by (simp add: load_capsule_from_bytes_def Let_def)






subsection \<open>The loop over the archive\<close>

lemma read_files_fold:
  "fold (\<lambda>n (code, loaded_files).
             if n = cap then (zip_read zf cap, loaded_files)
             else (code, loaded_files(n := zip_read zf n))) ns (code0, files0)
   = ((if cap \<in> set ns then zip_read zf cap else code0),
      (\<lambda>n. if n \<in> set ns \<and> n \<noteq> cap then zip_read zf n else files0 n))"
proof (induction ns arbitrary: code0 files0)
  case Nil
  show ?case by simp
next
  case (Cons a ns)
  show ?case
    by (cases "a = cap") (auto simp: Cons.IH fun_eq_iff)
qed

lemma read_files_eq:
  "read_files e zf =
     ((if CAPSULE_FILE_NAME e \<in> set (namelist zf) then zip_read zf (CAPSULE_FILE_NAME e) else None),
      (\<lambda>n. if n \<in> set (namelist zf) \<and> n \<noteq> CAPSULE_FILE_NAME e then zip_read zf n else None))"
  unfolding read_files_def by (rule read_files_fold)

lemma zip_read_verbatim:
  assumes "n \<in> set (namelist zf)"
  shows "\<exists>b. zip_read zf n = Some b \<and> (n, b) \<in> set zf"
proof -
  from assms have "n \<in> fst ` set (rev zf)"
    by (simp add: namelist_def)
  then obtain b where "map_of (rev zf) n = Some b"
    by (meson map_of_eq_None_iff not_Some_eq)
  moreover from this have "(n, b) \<in> set zf"
    by (auto dest: map_of_SomeD)
  ultimately show ?thesis by (auto simp: zip_read_def)
qed

lemma read_archive_files:
  assumes "read_archive e nm data key = Inr (zf, code, files, s)"
  shows "code = fst (read_files e zf) \<and> files = snd (read_files e zf)
       \<and> CAPSULE_FILE_NAME e \<in> set (namelist zf) \<and> META_FILE_NAME e \<in> set (namelist zf)"
  using assms
  by (auto simp: read_archive_def and_then_eq_Inr split: if_splits prod.splits)

subsection \<open>Validation: when it passes, and what it raises\<close>

lemma raise_invalid_not_Inr [simp]: "raise_invalid c r \<noteq> Inr y"
  by (simp add: raise_invalid_def split: option.splits)

lemma raise_invalid_named [simp]:
  "name c = Some n \<Longrightarrow> raise_invalid c r = Inl (InvalidCapsuleError n r)"
  by (simp add: raise_invalid_def)

lemma raise_invalid_nameless [simp]:
  "name c = None \<Longrightarrow> raise_invalid c r = Inl (AttributeError ''name'')"
  by (simp add: raise_invalid_def)

lemma raise_invalid_update [simp]:
  "raise_invalid (c\<lparr>backend_loader := x\<rparr>) r = raise_invalid c r"
  "raise_invalid (c\<lparr>stream_state := x\<rparr>) r = raise_invalid c r"
  "raise_invalid (c\<lparr>options := x\<rparr>) r = raise_invalid c r"
  by (simp_all add: raise_invalid_def)

lemma attr_simps [simp]:
  "attr a None = Inl (AttributeError a)"
  "attr a (Some x) = Inr x"
  by (simp_all add: attr_def)

lemma attr_eq_Inr [simp]: "attr a v = Inr x \<longleftrightarrow> v = Some x"
  by (simp add: attr_def split: option.splits)

lemma attr_eq_Inl [simp]: "attr a v = Inl e \<longleftrightarrow> v = None \<and> e = AttributeError a"
  by (auto simp: attr_def split: option.splits)

lemma validate_capsule_Inr_iff: "validate_capsule c = Inr u \<longleftrightarrow> validate_checks c = Inr u"
  by (simp add: validate_capsule_def split: sum.splits pyexc.splits)

lemma validate_checks_Inr_iff:
  "validate_checks c = Inr u \<longleftrightarrow>
     check_name c = Inr () \<and> check_capsule_assertions c = Inr () \<and>
     check_unwanted c unwanted_attributes = Inr () \<and> check_loader c = Inr () \<and>
     check_backend c = Inr () \<and> check_stream_state c = Inr () \<and> check_encoder c = Inr ()"
  by (simp add: validate_checks_def and_then_unit_eq_Inr)

lemma check_arg_names_None:
  "check_arg_names f correct None = Inr b \<longleftrightarrow>
     (\<exists>vs n. f = PFunction vs n \<and> b = (take n vs = correct))"
  by (cases f) (auto simp: check_arg_names_def)

lemma check_loader_Inr_iff:
  "check_loader c = Inr u \<longleftrightarrow>
     (\<exists>vs n. backend_loader c = Some (PFunction vs n) \<and>
        take n vs = [''capsule_files'', ''device''])"
  by (auto simp: check_loader_def and_then_eq_Inr check_arg_names_None py_callable_def Let_def)

lemma check_capsule_assertions_Inr_iff:
  "check_capsule_assertions c = Inr u \<longleftrightarrow>
     (\<exists>n bl v it ot op.
        name c = Some n \<and> backend_loader c = Some bl \<and> version c = Some v \<and>
        input_type c = Some it \<and> output_type c = Some ot \<and> options c = Some op \<and>
        isinstance_str n \<and> py_callable bl \<and> isinstance_int v \<and>
        isinstance it NodeDescription \<and> isinstance ot NodeDescription \<and> isinstance_dict op)"
  by (auto simp: check_capsule_assertions_def and_then_eq_Inr Let_def)

lemma check_stream_state_Inr_iff:
  "check_stream_state c = Inr u \<longleftrightarrow>
     (\<exists>k. stream_state c = Some (PClassV k) \<and>
          (class_id k = class_id BaseStreamState \<or> class_in BaseStreamState (class_bases k)))"
proof (cases "stream_state c")
  case None
  then show ?thesis by (simp add: check_stream_state_def)
next
  case (Some v)
  then show ?thesis
    by (cases v) (auto simp: check_stream_state_def is_class_def bases_of_def Let_def)
qed

text \<open>Each check reads only its own attributes (and \<^verbatim>\<open>capsule.name\<close> when it raises).\<close>

lemma unchanged_by_loader [simp]:
  "check_name (c\<lparr>backend_loader := x\<rparr>) = check_name c"
  "check_unwanted (c\<lparr>backend_loader := x\<rparr>) unwanted_attributes
     = check_unwanted c unwanted_attributes"
  "check_backend (c\<lparr>backend_loader := x\<rparr>) = check_backend c"
  "check_stream_state (c\<lparr>backend_loader := x\<rparr>) = check_stream_state c"
  "check_encoder (c\<lparr>backend_loader := x\<rparr>) = check_encoder c"
  by (simp_all add: check_name_def unwanted_attributes_def getattribute_def
        check_backend_def check_stream_state_def check_encoder_def
        cong: if_cong pyval.case_cong option.case_cong sum.case_cong)

lemma unchanged_by_stream_state [simp]:
  "check_name (c\<lparr>stream_state := x\<rparr>) = check_name c"
  "check_capsule_assertions (c\<lparr>stream_state := x\<rparr>) = check_capsule_assertions c"
  "check_unwanted (c\<lparr>stream_state := x\<rparr>) unwanted_attributes
     = check_unwanted c unwanted_attributes"
  "check_loader (c\<lparr>stream_state := x\<rparr>) = check_loader c"
  "check_backend (c\<lparr>stream_state := x\<rparr>) = check_backend c"
  "check_encoder (c\<lparr>stream_state := x\<rparr>) = check_encoder c"
  by (simp_all add: check_name_def unwanted_attributes_def getattribute_def
        check_backend_def check_capsule_assertions_def check_loader_def check_encoder_def
        cong: if_cong pyval.case_cong option.case_cong sum.case_cong)

lemma unchanged_by_options [simp]:
  "check_name (c\<lparr>options := x\<rparr>) = check_name c"
  "check_unwanted (c\<lparr>options := x\<rparr>) unwanted_attributes
     = check_unwanted c unwanted_attributes"
  "check_loader (c\<lparr>options := x\<rparr>) = check_loader c"
  "check_backend (c\<lparr>options := x\<rparr>) = check_backend c"
  "check_stream_state (c\<lparr>options := x\<rparr>) = check_stream_state c"
  by (simp_all add: check_name_def unwanted_attributes_def getattribute_def
        check_backend_def check_stream_state_def check_loader_def
        cong: if_cong pyval.case_cong option.case_cong sum.case_cong)

text \<open>Where the exceptions of the checks come from.  Every \<open>InvalidCapsuleError\<close> of a
  check carries \<^verbatim>\<open>capsule.name\<close>.\<close>

lemma check_arg_names_Inl:
  "check_arg_names f correct ig = Inl e \<Longrightarrow> e = AttributeError ''__code__''"
  by (cases f) (auto simp: check_arg_names_def Let_def)

lemma py_getattr_Inl: "py_getattr v a = Inl e \<Longrightarrow> e = AttributeError a"
  by (cases v) (auto simp: py_getattr_def split: option.splits)

lemma subscript0_Inl:
  "subscript0 v = Inl e \<Longrightarrow> e = IndexError \<or> e = KeyError ''0'' \<or> e = TypeError"
  by (cases v) (auto simp: subscript0_def split: list.splits)

lemma bases_of_Inl: "bases_of v = Inl e \<Longrightarrow> e = AttributeError ''__bases__''"
  by (cases v) (auto simp: bases_of_def)

lemma dict_keys_Inl: "dict_keys v = Inl e \<Longrightarrow> e = AttributeError ''keys''"
  by (cases v) (auto simp: dict_keys_def)

lemma check_name_invalid:
  assumes "check_name c = Inl (InvalidCapsuleError n r)"
  shows "name c = Some n"
proof (cases "name c")
  case None
  with assms show ?thesis by (simp add: check_name_def)
next
  case (Some v)
  with assms show ?thesis
    by (cases v) (auto simp: check_name_def split: if_splits)
qed

lemma check_capsule_assertions_invalid:
  "check_capsule_assertions c = Inl (InvalidCapsuleError n r) \<Longrightarrow> name c = Some n"
  by (auto simp: check_capsule_assertions_def and_then_eq_Inl Let_def split: if_splits)

lemma check_unwanted_invalid:
  "check_unwanted c as = Inl (InvalidCapsuleError n r) \<Longrightarrow> name c = Some n"
  by (induction as) (auto split: sum.splits option.splits)

lemma check_loader_invalid:
  "check_loader c = Inl (InvalidCapsuleError n r) \<Longrightarrow> name c = Some n"
  by (auto simp: check_loader_def and_then_eq_Inl Let_def raise_invalid_def
       split: if_splits option.splits dest: check_arg_names_Inl)

lemma check_backend_invalid:
  "check_backend c = Inl (InvalidCapsuleError n r) \<Longrightarrow> name c = Some n"
  by (auto simp: check_backend_def and_then_eq_Inl Let_def raise_invalid_def
       split: if_splits option.splits dest: py_getattr_Inl subscript0_Inl)

lemma check_stream_state_invalid:
  "check_stream_state c = Inl (InvalidCapsuleError n r) \<Longrightarrow> name c = Some n"
  by (auto simp: check_stream_state_def and_then_eq_Inl Let_def raise_invalid_def
       split: if_splits option.splits dest: bases_of_Inl)

lemma check_encoder_invalid:
  "check_encoder c = Inl (InvalidCapsuleError n r) \<Longrightarrow> name c = Some n"
  by (auto simp: check_encoder_def and_then_eq_Inl Let_def raise_invalid_def
       split: if_splits option.splits dest: py_getattr_Inl dict_keys_Inl)

lemma validate_checks_invalid:
  "validate_checks c = Inl (InvalidCapsuleError n r) \<Longrightarrow> name c = Some n"
  by (auto simp: validate_checks_def and_then_eq_Inl
       dest: check_name_invalid check_capsule_assertions_invalid check_unwanted_invalid
         check_loader_invalid check_backend_invalid check_stream_state_invalid
         check_encoder_invalid)

text \<open>With a readable name, validation returns or raises \<open>InvalidCapsuleError\<close> under that
  name; without one, the handlers themselves raise \<open>AttributeError\<close>.\<close>

lemma raise_invalid_Exception: "raise_invalid c r = Inl e \<Longrightarrow> is_Exception e"
  by (auto simp: raise_invalid_def split: option.splits)

lemma check_name_Exception: "check_name c = Inl e \<Longrightarrow> is_Exception e"
proof (cases "name c")
  case None
  assume "check_name c = Inl e"
  with None show ?thesis by (auto simp: check_name_def)
next
  case (Some v)
  assume "check_name c = Inl e"
  with Some show ?thesis
    by (cases v) (auto simp: check_name_def split: if_splits)
qed

lemma check_capsule_assertions_Exception:
  "check_capsule_assertions c = Inl e \<Longrightarrow> is_Exception e"
  by (auto simp: check_capsule_assertions_def and_then_eq_Inl Let_def
       split: if_splits dest: raise_invalid_Exception)

lemma check_unwanted_Exception: "check_unwanted c as = Inl e \<Longrightarrow> is_Exception e"
  by (induction as) (auto split: sum.splits option.splits)

lemma check_loader_Exception: "check_loader c = Inl e \<Longrightarrow> is_Exception e"
  by (auto simp: check_loader_def and_then_eq_Inl Let_def
       split: if_splits dest: check_arg_names_Inl raise_invalid_Exception)

lemma check_backend_Exception: "check_backend c = Inl e \<Longrightarrow> is_Exception e"
  by (auto simp: check_backend_def and_then_eq_Inl Let_def
       split: if_splits dest: py_getattr_Inl subscript0_Inl raise_invalid_Exception)

lemma check_stream_state_Exception: "check_stream_state c = Inl e \<Longrightarrow> is_Exception e"
  by (auto simp: check_stream_state_def and_then_eq_Inl Let_def
       split: if_splits dest: bases_of_Inl raise_invalid_Exception)

lemma check_encoder_Exception: "check_encoder c = Inl e \<Longrightarrow> is_Exception e"
  by (auto simp: check_encoder_def and_then_eq_Inl Let_def
       split: if_splits dest: py_getattr_Inl dict_keys_Inl raise_invalid_Exception)

lemma validate_checks_Exception: "validate_checks c = Inl e \<Longrightarrow> is_Exception e"
  by (auto simp: validate_checks_def and_then_eq_Inl
       dest: check_name_Exception check_capsule_assertions_Exception check_unwanted_Exception
         check_loader_Exception check_backend_Exception check_stream_state_Exception
         check_encoder_Exception)

lemma validate_capsule_named:
  assumes "name c = Some n"
  shows "validate_capsule c = Inr () \<or> (\<exists>r. validate_capsule c = Inl (InvalidCapsuleError n r))"
proof (cases "validate_checks c")
  case (Inr u)
  then show ?thesis by (simp add: validate_capsule_def)
next
  case (Inl e)
  note ex = validate_checks_Exception[OF Inl]
  show ?thesis
  proof (cases e)
    case (InvalidCapsuleError n' r)
    with Inl validate_checks_invalid[of c n' r] assms show ?thesis
      by (simp add: validate_capsule_def)
  qed (use Inl assms ex in \<open>simp_all add: validate_capsule_def\<close>)
qed

lemma check_name_nameless: "name c = None \<Longrightarrow> check_name c = Inl (AttributeError ''name'')"
  by (simp add: check_name_def)

lemma validate_capsule_nameless:
  assumes "name c = None"
  shows "validate_capsule c = Inl (AttributeError ''name'')"
  using assms by (simp add: validate_capsule_def validate_checks_def check_name_nameless)

lemma check_backend_empty: "backends c = Some (PList []) \<Longrightarrow> check_backend c = Inl IndexError"
  by (simp add: check_backend_def subscript0_def)

subsection \<open>The example plugin\<close>

lemmas check_defs =
  validate_capsule_def validate_checks_def check_name_def check_capsule_assertions_def
  unwanted_attributes_def getattribute_def check_loader_def check_backend_def
  check_stream_state_def check_encoder_def is_word_char_def isinstance_str_def
  isinstance_int_def isinstance_dict_def isinstance_def py_callable_def check_arg_names_def
  is_class_def class_in_def bases_of_def dict_keys_def py_getattr_def truthy_def subscript0_def
  NodeDescription_def BaseStreamState_def BaseBackend_def py_object_def

lemma validate_good_capsule: "validate_capsule good_capsule = Inr ()"
  by (simp add: good_capsule_def check_defs)

subsection \<open>The conversion of the two groups\<close>

text \<open>Within the digit limit \<^verbatim>\<open>int\<close> returns the decimal value.  Past it, the handler of
  line 87 is entered and fails on the unbound \<^verbatim>\<open>major\<close>: the load raises
  \<open>UnboundLocalError\<close>, as for the version with a major of 4301 digits under the default
  limit.\<close>

lemma py_int_within_limit:
  "length ds \<le> 640 \<or> max_str_digits = 0 \<or> length ds \<le> max_str_digits
     \<Longrightarrow> py_int max_str_digits ds = Inr (decimal ds)"
  by (auto simp: py_int_def)

lemma py_int_cases:
  "py_int max_str_digits ds = Inl ValueError \<or> py_int max_str_digits ds = Inr (decimal ds)"
  by (simp add: py_int_def)

lemma int_failure_is_unbound_local:
  assumes "semver_fullmatch s = Some (g1, g2)"
    and "py_int max_str_digits g1 = Inl ValueError \<or> py_int max_str_digits g2 = Inl ValueError"
  shows "check_compatibility max_str_digits nm s = Inl (UnboundLocalError ''major'')"
  using assms py_int_cases[of max_str_digits g1] py_int_cases[of max_str_digits g2]
  by (auto simp: check_compatibility_def)

lemma semver_fullmatch_long_version:
  "semver_fullmatch long_version = Some (replicate 4301 CHR ''1'', ''0'')"
proof -
  have "semver_fullmatch (replicate 4301 CHR ''1'' @ CHR ''.'' # ''0'')
          = Some (replicate 4301 CHR ''1'', ''0'')"
    by (rule semver_fullmatch_groups) (simp_all add: list_all_iff is_digit_def)
  then show ?thesis by (simp add: long_version_def)
qed

lemma oversized_version_raises_UnboundLocalError:
  "load_capsule_from_bytes (version_host long_version (Inr (module_building good_capsule)))
     ''zip'' None None True host_world
   = (Inl (UnboundLocalError ''major''), host_world)"
proof -
  have "py_int 4300 (replicate 4301 CHR ''1'') = Inl ValueError"
    by (simp add: py_int_def)
  then have "check_compatibility 4300 nm long_version = Inl (UnboundLocalError ''major'')" for nm
    using int_failure_is_unbound_local[OF semver_fullmatch_long_version] by simp
  then show ?thesis
    by (simp add: load_after_archive[OF read_archive_example] version_host_names)
qed

subsection \<open>A plugin that installs an import hook\<close>






text \<open>On an empty \<^verbatim>\<open>sys.meta_path\<close>, \<^verbatim>\<open>insert(1, ...)\<close> puts the finder at index 0,
  \<^verbatim>\<open>pop(1)\<close> raises \<open>IndexError\<close>, and the finder stays.\<close>

lemma empty_meta_path_leaves_finder:
  "load_capsule_from_bytes (version_host ''0.2'' (Inr (module_building good_capsule)))
     ''zip'' None None True \<lparr>meta_path = [], calls = []\<rparr>
   = (Inl IndexError,
      \<lparr>meta_path = [ZipFinder (example_zip (meta_text ''0.2'')) [''/'', ''capsule_5f2a'']
                       ''capsule_5f2a''],
       calls = []\<rparr>)"
  by (simp add: load_after_archive[OF read_archive_example] capsule_module_name_example
        check_compatibility_0_2 run_capsule_def execute_capsule_def list_insert_def list_pop_def
        source_path_or_dummy_def version_host_names)

subsection \<open>An empty backend list\<close>

text \<open>For every plugin whose \<^verbatim>\<open>backends\<close> is the empty list: validation does not pass
  and does not raise \<open>IndexError\<close>; when the plugin's \<^verbatim>\<open>name\<close> can be read, validation
  raises \<open>InvalidCapsuleError\<close> under that name; and when the checks before the backend
  check pass, that error is the one for unknown reasons, wrapping the \<open>IndexError\<close>.\<close>

lemma empty_backends_rejected:
  assumes "backends c = Some (PList [])"
  shows "validate_capsule c \<noteq> Inr ()
       \<and> validate_capsule c \<noteq> Inl IndexError
       \<and> (\<forall>n. name c = Some n \<longrightarrow> (\<exists>r. validate_capsule c = Inl (InvalidCapsuleError n r)))
       \<and> (\<forall>n. name c = Some n \<and> check_name c = Inr () \<and> check_capsule_assertions c = Inr () \<and>
              check_unwanted c unwanted_attributes = Inr () \<and> check_loader c = Inr () \<longrightarrow>
              validate_capsule c = Inl (InvalidCapsuleError n (UnknownReasons IndexError)))"
proof -
  have b: "check_backend c = Inl IndexError"
    using assms by (rule check_backend_empty)
  have no: "validate_capsule c \<noteq> Inr ()"
    using b by (simp add: validate_capsule_Inr_iff validate_checks_Inr_iff)
  have named: "\<exists>r. validate_capsule c = Inl (InvalidCapsuleError n r)" if "name c = Some n" for n
    using validate_capsule_named[OF that] no by simp
  have ie: "validate_capsule c \<noteq> Inl IndexError"
  proof (cases "name c")
    case None
    then show ?thesis by (simp add: validate_capsule_nameless)
  next
    case (Some n)
    with named[of n] show ?thesis by auto
  qed
  have gen: "validate_capsule c = Inl (InvalidCapsuleError n (UnknownReasons IndexError))"
    if "name c = Some n" "check_name c = Inr ()" "check_capsule_assertions c = Inr ()"
       "check_unwanted c unwanted_attributes = Inr ()" "check_loader c = Inr ()" for n
    using that b by (simp add: validate_capsule_def validate_checks_def)
  from no ie named gen show ?thesis by blast
qed

lemma empty_backends_rejected_example:
  "validate_capsule (good_capsule\<lparr>backends := Some (PList [])\<rparr>)
     = Inl (InvalidCapsuleError (PStr ''detector_person'') (UnknownReasons IndexError))"
  by (simp add: good_capsule_def check_defs raise_invalid_def)

section \<open>The claims\<close>



text \<open>
  C2.  Not every internal failure of \<open>load_capsule_from_bytes\<close> is converted into one of
  the two error kinds.  Lines 74-76 read the meta descriptor outside any handler: an
  archive whose \<^verbatim>\<open>meta.conf\<close> is empty, so that the parsed configuration has no \<open>about\<close>
  section, makes the load raise \<open>KeyError\<close> for \<open>about\<close>, and one whose \<^verbatim>\<open>meta.conf\<close>
  holds the section header alone raises \<open>KeyError\<close> for \<open>api_compatibility_version\<close>.
  The handlers of lines 279-285 read \<^verbatim>\<open>capsule.name\<close> themselves: a plugin object
  without that attribute makes the load raise \<open>AttributeError\<close>, and \<^verbatim>\<open>close\<close> is not
  called.
\<close>

theorem raw_errors_reach_the_caller:
  "load_capsule_from_bytes (host_env '''' (Inr Map.empty) (Inr (module_building good_capsule)))
     ''zip'' None None True host_world
     = (Inl (KeyError ''about''), host_world)
   \<and> load_capsule_from_bytes
       (host_env ''[about]'' (Inr [''about'' \<mapsto> Map.empty]) (Inr (module_building good_capsule)))
       ''zip'' None None True host_world
     = (Inl (KeyError ''api_compatibility_version''), host_world)
   \<and> load_capsule_from_bytes
       (version_host ''0.2'' (Inr (module_building (good_capsule\<lparr>name := None\<rparr>))))
       ''zip'' None None True host_world
     = (Inl (AttributeError ''name''),
        host_world\<lparr>calls := [Constructed (example_files (meta_text ''0.2'')) True]\<rparr>)"
proof -
  have k1: "load_capsule_from_bytes
      (host_env '''' (Inr Map.empty) (Inr (module_building good_capsule)))
      ''zip'' None None True host_world
      = (Inl (KeyError ''about''), host_world)"
    by (simp add: load_capsule_from_bytes_def Let_def read_archive_host getitem_def)
  have k2: "load_capsule_from_bytes
      (host_env ''[about]'' (Inr [''about'' \<mapsto> Map.empty]) (Inr (module_building good_capsule)))
      ''zip'' None None True host_world
      = (Inl (KeyError ''api_compatibility_version''), host_world)"
    by (simp add: load_capsule_from_bytes_def Let_def read_archive_host getitem_def)
  have v: "validate_capsule (good_capsule\<lparr>name := None\<rparr>) = Inl (AttributeError ''name'')"
    by (simp add: validate_capsule_nameless)
  have k3: "load_capsule_from_bytes
      (version_host ''0.2'' (Inr (module_building (good_capsule\<lparr>name := None\<rparr>))))
      ''zip'' None None True host_world
      = (Inl (AttributeError ''name''),
         host_world\<lparr>calls := [Constructed (example_files (meta_text ''0.2'')) True]\<rparr>)"
    by (simp add: load_after_archive[OF read_archive_example] check_compatibility_0_2
          run_capsule_def execute_capsule_example construct_and_validate_def
          module_building_def validate_or_close_def v)
       (simp add: host_world_def)
  from k1 k2 k3 show ?thesis by simp
qed

text \<open>
  C3.  For every plugin that validates once it is given a conforming loader: validation
  accepts a loader \<open>f\<close> exactly when \<open>f\<close> exposes \<^verbatim>\<open>__code__\<close> and its positional
  parameter names, \<^verbatim>\<open>co_varnames[:co_argcount]\<close> with nothing ignored, are
  \<^verbatim>\<open>capsule_files\<close> then \<^verbatim>\<open>device\<close>.
\<close>

theorem loader_accepted_iff:
  assumes "validate_capsule
             (c\<lparr>backend_loader := Some (PFunction [''capsule_files'', ''device''] 2)\<rparr>) = Inr ()"
  shows "validate_capsule (c\<lparr>backend_loader := Some f\<rparr>) = Inr () \<longleftrightarrow>
           (\<exists>vs n. f = PFunction vs n \<and> take n vs = [''capsule_files'', ''device''])"
  using assms
  by (auto simp: validate_capsule_Inr_iff validate_checks_Inr_iff check_loader_Inr_iff
        check_capsule_assertions_Inr_iff py_callable_def)

text \<open>On the example plugin: a loader with a local variable after its two parameters is
  accepted, the loader declared as a method is not.\<close>

theorem loader_accepted_iff_witness:
  "validate_capsule
     (good_capsule\<lparr>backend_loader := Some (PFunction [''capsule_files'', ''device''] 2)\<rparr>) = Inr ()
   \<and> validate_capsule
       (good_capsule\<lparr>backend_loader :=
          Some (PFunction [''capsule_files'', ''device'', ''backend''] 2)\<rparr>) = Inr ()
   \<and> validate_capsule (good_capsule\<lparr>backend_loader := Some method_loader\<rparr>) \<noteq> Inr ()"
proof -
  have h: "validate_capsule
     (good_capsule\<lparr>backend_loader := Some (PFunction [''capsule_files'', ''device''] 2)\<rparr>) = Inr ()"
    by (simp add: good_capsule_def check_defs)
  from loader_accepted_iff[OF h, of "PFunction [''capsule_files'', ''device'', ''backend''] 2"]
       loader_accepted_iff[OF h, of method_loader] h
  show ?thesis by (simp add: method_loader_def)
qed

text \<open>The claim as stated fails: the method's names are the claimed ones once \<open>self\<close> is
  ignored (\<open>check_arg_names\<close> says so when it is told to ignore \<open>self\<close>), and the plugin
  is rejected.\<close>

theorem method_loader_counterexample:
  "check_arg_names method_loader [''capsule_files'', ''device''] (Some [''self'']) = Inr True
   \<and> validate_capsule good_capsule = Inr ()
   \<and> validate_capsule (good_capsule\<lparr>backend_loader := Some method_loader\<rparr>)
       = Inl (InvalidCapsuleError (PStr ''detector_person'') (BadLoader [True, False]))"
  by (simp add: good_capsule_def method_loader_def check_defs)

text \<open>
  C4.  For every plugin that validates with \<^verbatim>\<open>BaseStreamState\<close> as its stream state:
  validation accepts a stream state \<open>v\<close> exactly when \<open>v\<close> is the class
  \<^verbatim>\<open>BaseStreamState\<close> itself or a class that has \<^verbatim>\<open>BaseStreamState\<close> among its direct
  bases.
\<close>

theorem stream_state_accepted_iff:
  assumes "validate_capsule (c\<lparr>stream_state := Some (PClassV BaseStreamState)\<rparr>) = Inr ()"
  shows "validate_capsule (c\<lparr>stream_state := Some v\<rparr>) = Inr () \<longleftrightarrow>
           (\<exists>k. v = PClassV k \<and>
              (class_id k = class_id BaseStreamState \<or>
               (\<exists>b \<in> set (class_bases k). class_id b = class_id BaseStreamState)))"
  using assms
  by (auto simp: validate_capsule_Inr_iff validate_checks_Inr_iff check_stream_state_Inr_iff
        class_in_def list_ex_iff)

text \<open>On the example plugin: the direct subclass is accepted; the subclass of the
  subclass and an instance of \<^verbatim>\<open>BaseStreamState\<close> are not.\<close>

theorem stream_state_accepted_iff_witness:
  "validate_capsule (good_capsule\<lparr>stream_state := Some (PClassV BaseStreamState)\<rparr>) = Inr ()
   \<and> validate_capsule (good_capsule\<lparr>stream_state := Some (PClassV Tracked)\<rparr>) = Inr ()
   \<and> validate_capsule (good_capsule\<lparr>stream_state := Some (PClassV Counted)\<rparr>) \<noteq> Inr ()
   \<and> validate_capsule (good_capsule\<lparr>stream_state := Some (PObject BaseStreamState [])\<rparr>) \<noteq> Inr ()"
proof -
  have h: "validate_capsule (good_capsule\<lparr>stream_state := Some (PClassV BaseStreamState)\<rparr>) = Inr ()"
    by (simp add: good_capsule_def check_defs)
  from stream_state_accepted_iff[OF h, of "PClassV Tracked"]
       stream_state_accepted_iff[OF h, of "PClassV Counted"]
       stream_state_accepted_iff[OF h, of "PObject BaseStreamState []"] h
  show ?thesis
    by (simp add: Tracked_def Counted_def BaseStreamState_def py_object_def)
qed

text \<open>The claim as stated fails: \<open>Counted\<close> is a subclass of \<^verbatim>\<open>BaseStreamState\<close> through
  \<open>Tracked\<close>, and the plugin that declares it is rejected.\<close>

theorem indirect_stream_state_counterexample:
  "issubclass Counted BaseStreamState
   \<and> validate_capsule (good_capsule\<lparr>stream_state := Some (PClassV Counted)\<rparr>)
       = Inl (InvalidCapsuleError (PStr ''detector_person'') (BadStreamState [False]))"
  by (simp add: good_capsule_def Counted_def Tracked_def check_defs)

text \<open>
  C5.  For every archive, the loop of lines 63-70 yields the content of the code entry and
  a mapping that holds exactly the entries other than the code entry, the meta entry
  included, each with the content the archive has for that name.  When the load reaches
  the constructor, the meta descriptor has been read out of this mapping, and the mapping
  is what the constructor receives as \<^verbatim>\<open>capsule_files\<close>.
\<close>

theorem loaded_files_are_all_but_code:
  "read_files e zf =
     ((if CAPSULE_FILE_NAME e \<in> set (namelist zf) then zip_read zf (CAPSULE_FILE_NAME e) else None),
      (\<lambda>n. if n \<in> set (namelist zf) \<and> n \<noteq> CAPSULE_FILE_NAME e then zip_read zf n else None))
   \<and> (\<forall>n \<in> set (namelist zf). \<exists>b. zip_read zf n = Some b \<and> (n, b) \<in> set zf)
   \<and> (read_archive e (capsule_module_name e data) data key = Inr (zf, code, files, s) \<and>
      check_compatibility (int_max_str_digits e) (capsule_module_name e data) s = Inr () \<and>
      execute_capsule e zf code (source_path_or_dummy sp (capsule_module_name e data))
        (capsule_module_name e data) w = (Inr m, w1) \<and>
      Capsule m = Some ctor
      \<longrightarrow> files = (\<lambda>n. if n \<in> set (namelist zf) \<and> n \<noteq> CAPSULE_FILE_NAME e
                        then zip_read zf n else None)
        \<and> code = zip_read zf (CAPSULE_FILE_NAME e)
        \<and> files (META_FILE_NAME e) = zip_read zf (META_FILE_NAME e)
        \<and> load_capsule_from_bytes e data sp key mode w =
            (case ctor files mode of
               Inl ex \<Rightarrow> (Inl ex, w1\<lparr>calls := calls w1 @ [Constructed files mode]\<rparr>)
             | Inr c \<Rightarrow>
                 validate_or_close c (w1\<lparr>calls := calls w1 @ [Constructed files mode]\<rparr>)))"
proof (intro conjI impI ballI)
  show "read_files e zf =
     ((if CAPSULE_FILE_NAME e \<in> set (namelist zf) then zip_read zf (CAPSULE_FILE_NAME e) else None),
      (\<lambda>n. if n \<in> set (namelist zf) \<and> n \<noteq> CAPSULE_FILE_NAME e then zip_read zf n else None))"
    by (rule read_files_eq)
next
  fix n assume "n \<in> set (namelist zf)"
  then show "\<exists>b. zip_read zf n = Some b \<and> (n, b) \<in> set zf"
    by (rule zip_read_verbatim)
next
  assume h: "read_archive e (capsule_module_name e data) data key = Inr (zf, code, files, s) \<and>
      check_compatibility (int_max_str_digits e) (capsule_module_name e data) s = Inr () \<and>
      execute_capsule e zf code (source_path_or_dummy sp (capsule_module_name e data))
        (capsule_module_name e data) w = (Inr m, w1) \<and>
      Capsule m = Some ctor"
  then have arch:
    "read_archive e (capsule_module_name e data) data key = Inr (zf, code, files, s)"
    by simp
  note rf = read_archive_files[OF arch]
  show "files = (\<lambda>n. if n \<in> set (namelist zf) \<and> n \<noteq> CAPSULE_FILE_NAME e
                        then zip_read zf n else None)"
    using rf by (simp add: read_files_eq)
  show "code = zip_read zf (CAPSULE_FILE_NAME e)"
    using rf by (simp add: read_files_eq)
  show "files (META_FILE_NAME e) = zip_read zf (META_FILE_NAME e)"
    using arch rf
    by (auto simp: read_files_eq read_archive_def and_then_eq_Inr getitem_def
          split: if_splits option.splits)
  show "load_capsule_from_bytes e data sp key mode w =
            (case ctor files mode of
               Inl ex \<Rightarrow> (Inl ex, w1\<lparr>calls := calls w1 @ [Constructed files mode]\<rparr>)
             | Inr c \<Rightarrow>
                 validate_or_close c (w1\<lparr>calls := calls w1 @ [Constructed files mode]\<rparr>))"
    using h
    by (simp add: load_after_archive[OF arch] run_capsule_def construct_and_validate_def Let_def)
qed

text \<open>On the example archive and the example plugin.\<close>

theorem loaded_files_are_all_but_code_witness:
  "read_archive (version_host ''0.2'' (Inr (module_building good_capsule)))
      ''capsule_5f2a'' ''zip'' None
     = Inr (example_zip (meta_text ''0.2''), Some ''class Capsule(BaseCapsule): ...'',
            example_files (meta_text ''0.2''), ''0.2'')
   \<and> check_compatibility 4300 ''capsule_5f2a'' ''0.2'' = Inr ()
   \<and> execute_capsule (version_host ''0.2'' (Inr (module_building good_capsule)))
       (example_zip (meta_text ''0.2'')) (Some ''class Capsule(BaseCapsule): ...'')
       [''/'', ''capsule_5f2a''] ''capsule_5f2a'' host_world
     = (Inr (module_building good_capsule), host_world)
   \<and> zip_read (example_zip (meta_text ''0.2'')) ''detector.pb'' = Some ''weights''
   \<and> example_files (meta_text ''0.2'') =
       (\<lambda>n. if n \<in> set (namelist (example_zip (meta_text ''0.2''))) \<and> n \<noteq> ''capsule.py''
            then zip_read (example_zip (meta_text ''0.2'')) n else None)
   \<and> load_capsule_from_bytes (version_host ''0.2'' (Inr (module_building good_capsule)))
       ''zip'' None None True host_world
     = (Inr good_capsule,
        host_world\<lparr>calls := [Constructed (example_files (meta_text ''0.2'')) True]\<rparr>)"
proof -
  let ?e = "version_host ''0.2'' (Inr (module_building good_capsule))"
  let ?code = "Some ''class Capsule(BaseCapsule): ...''"
  let ?zf = "example_zip (meta_text ''0.2'')"
  let ?files = "example_files (meta_text ''0.2'')"
  have a: "read_archive ?e ''capsule_5f2a'' ''zip'' None = Inr (?zf, ?code, ?files, ''0.2'')"
    by (rule read_archive_example)
  have x: "execute_capsule ?e ?zf ?code [''/'', ''capsule_5f2a''] ''capsule_5f2a'' host_world
             = (Inr (module_building good_capsule), host_world)"
    by (simp add: execute_capsule_example)
  have m: "Capsule (module_building good_capsule)
             = Some (\<lambda>capsule_files inference_mode. Inr good_capsule)"
    by (simp add: module_building_def)
  have z: "zip_read ?zf ''detector.pb'' = Some ''weights''"
    by (simp add: zip_read_def example_zip_def)
  have v: "validate_or_close good_capsule w = (Inr good_capsule, w)" for w
    by (simp add: validate_or_close_def validate_good_capsule)
  have c0: "calls host_world = []"
    by (simp add: host_world_def)
  from loaded_files_are_all_but_code[of ?e ?zf "''zip''" None ?code ?files "''0.2''"
         None host_world "module_building good_capsule" host_world
         "\<lambda>capsule_files inference_mode. Inr good_capsule" True]
       a x m z
  show ?thesis
    by (simp add: capsule_module_name_example check_compatibility_0_2 source_path_or_dummy_def
          version_host_names v c0)
qed

text \<open>The claim as stated fails: the mapping the constructor receives holds the meta
  entry, which is one of the two designated entries.\<close>

theorem meta_entry_in_capsule_files_counterexample:
  "read_files (version_host ''0.2'' (Inr (module_building good_capsule)))
     (example_zip (meta_text ''0.2''))
     = (Some ''class Capsule(BaseCapsule): ...'', example_files (meta_text ''0.2''))
   \<and> example_files (meta_text ''0.2'') ''meta.conf'' = Some (meta_text ''0.2'')
   \<and> load_capsule_from_bytes (version_host ''0.2'' (Inr (module_building good_capsule)))
       ''zip'' None None True host_world
     = (Inr good_capsule,
        host_world\<lparr>calls := [Constructed (example_files (meta_text ''0.2'')) True]\<rparr>)"
proof -
  let ?e = "version_host ''0.2'' (Inr (module_building good_capsule))"
  have f: "read_files ?e (example_zip (meta_text ''0.2''))
             = (Some ''class Capsule(BaseCapsule): ...'', example_files (meta_text ''0.2''))"
    by (simp add: version_host_def read_files_example)
  have l: "load_capsule_from_bytes ?e ''zip'' None None True host_world
             = (Inr good_capsule,
                host_world\<lparr>calls := [Constructed (example_files (meta_text ''0.2'')) True]\<rparr>)"
    by (simp add: load_after_archive[OF read_archive_example] check_compatibility_0_2
          run_capsule_def execute_capsule_example construct_and_validate_def
          module_building_def validate_or_close_def validate_good_capsule)
       (simp add: host_world_def)
  from f l show ?thesis
    by (simp add: example_files_meta)
qed

text \<open>
  C6.  Whenever the load has built a plugin object \<open>c\<close> and validation of \<open>c\<close> raises
  \<open>InvalidCapsuleError\<close>, \<^verbatim>\<open>c.close()\<close> is called, after the constructor and before
  \<open>load_capsule_from_bytes\<close> ends.  When \<^verbatim>\<open>close\<close> returns, the exception the load raises
  is that same validation error; when \<^verbatim>\<open>close\<close> itself raises, line 137 is not reached
  and the exception of \<^verbatim>\<open>close\<close> is the one that leaves the load.
\<close>

theorem close_before_error_propagates:
  assumes arch: "read_archive e (capsule_module_name e data) data key = Inr (zf, code, files, s)"
      and compat: "check_compatibility (int_max_str_digits e) (capsule_module_name e data) s = Inr ()"
      and exec: "execute_capsule e zf code (source_path_or_dummy sp (capsule_module_name e data))
                   (capsule_module_name e data) w = (Inr m, w1)"
      and ctor: "Capsule m = Some ctor" "ctor files mode = Inr c"
      and invalid: "validate_capsule c = Inl (InvalidCapsuleError n r)"
  shows "load_capsule_from_bytes e data sp key mode w =
           ((case close_raises c of
               None \<Rightarrow> Inl (InvalidCapsuleError n r)
             | Some ex \<Rightarrow> Inl ex),
            w1\<lparr>calls := calls w1 @ [Constructed files mode, Closed c]\<rparr>)"
  using compat exec ctor invalid
  by (simp add: load_after_archive[OF arch] run_capsule_def construct_and_validate_def
        validate_or_close_def Let_def split: option.splits)

text \<open>On the example archive, with a plugin whose name has a blank in it.\<close>

theorem close_before_error_propagates_witness:
  "validate_capsule (good_capsule\<lparr>name := Some (PStr ''person detector'')\<rparr>)
     = Inl (InvalidCapsuleError (PStr ''person detector'') BadName)
   \<and> load_capsule_from_bytes
       (version_host ''0.2''
          (Inr (module_building (good_capsule\<lparr>name := Some (PStr ''person detector'')\<rparr>))))
       ''zip'' None None True host_world
     = (Inl (InvalidCapsuleError (PStr ''person detector'') BadName),
        host_world\<lparr>calls := [Constructed (example_files (meta_text ''0.2'')) True,
                               Closed (good_capsule\<lparr>name := Some (PStr ''person detector'')\<rparr>)]\<rparr>)"
proof -
  let ?c = "good_capsule\<lparr>name := Some (PStr ''person detector'')\<rparr>"
  let ?e = "version_host ''0.2'' (Inr (module_building ?c))"
  let ?code = "Some ''class Capsule(BaseCapsule): ...''"
  have a: "read_archive ?e (capsule_module_name ?e ''zip'') ''zip'' None
             = Inr (example_zip (meta_text ''0.2''), ?code, example_files (meta_text ''0.2''), ''0.2'')"
    by (rule read_archive_example)
  have g: "check_compatibility (int_max_str_digits ?e) (capsule_module_name ?e ''zip'') ''0.2''
             = Inr ()"
    by (rule check_compatibility_0_2)
  have x: "execute_capsule ?e (example_zip (meta_text ''0.2'')) ?code
             (source_path_or_dummy None (capsule_module_name ?e ''zip''))
             (capsule_module_name ?e ''zip'') host_world
             = (Inr (module_building ?c), host_world)"
    by (simp add: execute_capsule_example)
  have m: "Capsule (module_building ?c) = Some (\<lambda>capsule_files inference_mode. Inr ?c)"
    by (simp add: module_building_def)
  have v: "validate_capsule ?c = Inl (InvalidCapsuleError (PStr ''person detector'') BadName)"
    by (simp add: good_capsule_def check_defs raise_invalid_def)
  have cl: "close_raises ?c = None" "calls host_world = []"
    by (simp_all add: good_capsule_def host_world_def)
  from close_before_error_propagates[OF a g x m _ v, of True] v cl
  show ?thesis by simp
qed

text \<open>The claim as stated fails: the plugin's name has a blank in it and its
  \<^verbatim>\<open>close\<close> raises; \<^verbatim>\<open>close\<close> is called, and the error that reaches the caller is the one
  \<^verbatim>\<open>close\<close> raised, not the validation error.\<close>

theorem failing_close_counterexample:
  "validate_capsule
     (good_capsule\<lparr>name := Some (PStr ''person detector''),
                   close_raises := Some (OtherError ''RuntimeError'')\<rparr>)
     = Inl (InvalidCapsuleError (PStr ''person detector'') BadName)
   \<and> load_capsule_from_bytes
       (version_host ''0.2''
          (Inr (module_building
                  (good_capsule\<lparr>name := Some (PStr ''person detector''),
                                close_raises := Some (OtherError ''RuntimeError'')\<rparr>))))
       ''zip'' None None True host_world
     = (Inl (OtherError ''RuntimeError''),
        host_world\<lparr>calls :=
          [Constructed (example_files (meta_text ''0.2'')) True,
           Closed (good_capsule\<lparr>name := Some (PStr ''person detector''),
                                 close_raises := Some (OtherError ''RuntimeError'')\<rparr>)]\<rparr>)"
proof -
  let ?c = "good_capsule\<lparr>name := Some (PStr ''person detector''),
                         close_raises := Some (OtherError ''RuntimeError'')\<rparr>"
  have v: "validate_capsule ?c = Inl (InvalidCapsuleError (PStr ''person detector'') BadName)"
    by (simp add: good_capsule_def check_defs raise_invalid_def)
  have l: "load_capsule_from_bytes (version_host ''0.2'' (Inr (module_building ?c)))
             ''zip'' None None True host_world
           = (Inl (OtherError ''RuntimeError''),
              host_world\<lparr>calls :=
                [Constructed (example_files (meta_text ''0.2'')) True, Closed ?c]\<rparr>)"
    by (simp add: load_after_archive[OF read_archive_example] check_compatibility_0_2
          run_capsule_def execute_capsule_example construct_and_validate_def
          module_building_def validate_or_close_def v)
       (simp add: host_world_def)
  from v l show ?thesis by simp
qed

text \<open>
  C7.  Whenever the archive is read and its compatibility string is not, in full, two
  non-empty runs of digits separated by one dot, \<open>load_capsule_from_bytes\<close> raises
  \<open>InvalidCapsuleError\<close> (reporting the string), and so never
  \<open>IncompatibleCapsuleError\<close>.
\<close>

theorem malformed_version_is_invalid:
  assumes arch:
      "read_archive e (capsule_module_name e data) data key = Inr (zf, code, loaded_files, s)"
    and bad: "\<not> matches_major_minor s"
  shows "load_capsule_from_bytes e data sp key mode w =
           (Inl (InvalidCapsuleError (PStr (capsule_module_name e data))
                   (InvalidVersionFormat s)), w)
       \<and> (\<forall>n r. fst (load_capsule_from_bytes e data sp key mode w)
                   \<noteq> Inl (IncompatibleCapsuleError n r))"
proof -
  from bad have "semver_fullmatch s = None"
    by (simp add: semver_fullmatch_None_iff)
  then show ?thesis
    by (simp add: load_after_archive[OF arch] check_compatibility_def)
qed

text \<open>Trailing whitespace, a sign, a third component and a missing minor; the two loads
  run on the example archive.\<close>

theorem malformed_version_is_invalid_witness:
  "\<not> matches_major_minor ''0.2 '' \<and> \<not> matches_major_minor ''+0.2''
   \<and> \<not> matches_major_minor ''0.2.1'' \<and> \<not> matches_major_minor ''2''
   \<and> load_capsule_from_bytes (version_host ''+0.2'' (Inl TypeError))
        ''zip'' None None True host_world
       = (Inl (InvalidCapsuleError (PStr ''capsule_5f2a'') (InvalidVersionFormat ''+0.2'')),
          host_world)
   \<and> load_capsule_from_bytes (version_host ''0.2.1'' (Inl TypeError))
        ''zip'' None None True host_world
       = (Inl (InvalidCapsuleError (PStr ''capsule_5f2a'') (InvalidVersionFormat ''0.2.1'')),
          host_world)"
proof -
  let ?e = "\<lambda>v. version_host v (Inl TypeError)"
  have a: "read_archive (?e v) (capsule_module_name (?e v) ''zip'') ''zip'' None
             = Inr (example_zip (meta_text v), Some ''class Capsule(BaseCapsule): ...'',
                    example_files (meta_text v), v)" for v
    by (rule read_archive_example)
  have n: "semver_fullmatch ''0.2 '' = None" "semver_fullmatch ''+0.2'' = None"
          "semver_fullmatch ''0.2.1'' = None" "semver_fullmatch ''2'' = None"
    by (simp_all add: semver_fullmatch_def is_digit_def)
  then have b: "\<not> matches_major_minor ''0.2 ''" "\<not> matches_major_minor ''+0.2''"
               "\<not> matches_major_minor ''0.2.1''" "\<not> matches_major_minor ''2''"
    by (simp_all add: semver_fullmatch_None_iff)
  from malformed_version_is_invalid[OF a b(2), of None True host_world]
       malformed_version_is_invalid[OF a b(3), of None True host_world] b
  show ?thesis
    by (simp add: capsule_module_name_example)
qed




text \<open>
  C9.  For every plugin whose \<^verbatim>\<open>capability.encoded\<close> is true, whose options are a
  dictionary without the key \<^verbatim>\<open>recognition_threshold\<close>, and which passes every other
  check: validation raises \<open>InvalidCapsuleError\<close> for the missing threshold; and the same
  plugin with that key added to its options passes validation.
\<close>

theorem encoder_needs_threshold:
  assumes enc: "capability c = Some cap" "py_getattr cap ''encoded'' = Inr flag" "truthy flag"
      and lacks: "options c = Some (PDict d)" "''recognition_threshold'' \<notin> fst ` set d"
      and valid: "check_name c = Inr ()" "check_capsule_assertions c = Inr ()"
                 "check_unwanted c unwanted_attributes = Inr ()" "check_loader c = Inr ()"
                 "check_backend c = Inr ()" "check_stream_state c = Inr ()"
  shows "(\<exists>n. name c = Some n \<and> validate_capsule c = Inl (InvalidCapsuleError n NoThreshold))
       \<and> validate_capsule
           (c\<lparr>options := Some (PDict (d @ [(''recognition_threshold'', v)]))\<rparr>) = Inr ()"
proof -
  from valid(2) obtain n where n: "name c = Some n"
    by (auto simp: check_capsule_assertions_Inr_iff)
  have e: "check_encoder c = Inl (InvalidCapsuleError n NoThreshold)"
    using enc lacks n by (simp add: check_encoder_def dict_keys_def)
  have 1: "validate_capsule c = Inl (InvalidCapsuleError n NoThreshold)"
    using valid e by (simp add: validate_capsule_def validate_checks_def)
  let ?c = "c\<lparr>options := Some (PDict (d @ [(''recognition_threshold'', v)]))\<rparr>"
  have a: "check_capsule_assertions ?c = Inr ()"
    using valid(2) lacks(1) by (auto simp: check_capsule_assertions_Inr_iff isinstance_dict_def)
  have e': "check_encoder ?c = Inr ()"
    using enc by (simp add: check_encoder_def dict_keys_def)
  have 2: "validate_capsule ?c = Inr ()"
    using valid a e' by (simp add: validate_capsule_Inr_iff validate_checks_Inr_iff)
  from n 1 2 show ?thesis by simp
qed

text \<open>The example plugin as an encoder, with one unrelated option.\<close>

theorem encoder_needs_threshold_witness:
  "validate_capsule
     (good_capsule\<lparr>capability := Some encoder_capability,
                   options := Some (PDict [(''nms_iou'', PInt 1)])\<rparr>)
     = Inl (InvalidCapsuleError (PStr ''detector_person'') NoThreshold)
   \<and> validate_capsule
       (good_capsule\<lparr>capability := Some encoder_capability,
                     options := Some (PDict [(''nms_iou'', PInt 1),
                                             (''recognition_threshold'', PInt 1)])\<rparr>)
     = Inr ()"
proof -
  let ?c = "good_capsule\<lparr>capability := Some encoder_capability,
                         options := Some (PDict [(''nms_iou'', PInt 1)])\<rparr>"
  have enc: "capability ?c = Some encoder_capability"
            "py_getattr encoder_capability ''encoded'' = Inr (PBool True)"
            "truthy (PBool True)"
    by (simp_all add: encoder_capability_def py_getattr_def truthy_def)
  have lacks: "options ?c = Some (PDict [(''nms_iou'', PInt 1)])"
              "''recognition_threshold'' \<notin> fst ` set [(''nms_iou'', PInt 1)]"
    by simp_all
  have valid: "check_name ?c = Inr ()" "check_capsule_assertions ?c = Inr ()"
              "check_unwanted ?c unwanted_attributes = Inr ()" "check_loader ?c = Inr ()"
              "check_backend ?c = Inr ()" "check_stream_state ?c = Inr ()"
    by (simp_all add: good_capsule_def check_defs)
  have nm: "name ?c = Some (PStr ''detector_person'')"
    by (simp add: good_capsule_def)
  from encoder_needs_threshold[OF enc lacks valid, of "PInt 1"] nm
  show ?thesis by simp
qed

text \<open>
  C10.  An empty backend list does not always make validation raise
  \<open>InvalidCapsuleError\<close>.  The handlers of lines 276-285 build their error from
  \<^verbatim>\<open>capsule.name\<close>: for a plugin object without that attribute and with
  \<^verbatim>\<open>backends = []\<close>, the read in the handler raises, and validation ends with
  \<open>AttributeError\<close> for \<open>name\<close>; through \<open>load_capsule_from_bytes\<close> that error reaches
  the caller, and \<^verbatim>\<open>close\<close> is not called.
\<close>

theorem nameless_empty_backends_raise_AttributeError:
  "backends (good_capsule\<lparr>name := None, backends := Some (PList [])\<rparr>) = Some (PList [])
   \<and> validate_capsule (good_capsule\<lparr>name := None, backends := Some (PList [])\<rparr>)
       = Inl (AttributeError ''name'')
   \<and> load_capsule_from_bytes
       (version_host ''0.2''
          (Inr (module_building (good_capsule\<lparr>name := None, backends := Some (PList [])\<rparr>))))
       ''zip'' None None True host_world
     = (Inl (AttributeError ''name''),
        host_world\<lparr>calls := [Constructed (example_files (meta_text ''0.2'')) True]\<rparr>)"
proof -
  let ?c = "good_capsule\<lparr>name := None, backends := Some (PList [])\<rparr>"
  have v: "validate_capsule ?c = Inl (AttributeError ''name'')"
    by (simp add: validate_capsule_nameless)
  have l: "load_capsule_from_bytes (version_host ''0.2'' (Inr (module_building ?c)))
             ''zip'' None None True host_world
           = (Inl (AttributeError ''name''),
              host_world\<lparr>calls := [Constructed (example_files (meta_text ''0.2'')) True]\<rparr>)"
    by (simp add: load_after_archive[OF read_archive_example] check_compatibility_0_2
          run_capsule_def execute_capsule_example construct_and_validate_def
          module_building_def validate_or_close_def v)
       (simp add: host_world_def)
  from v l show ?thesis by simp
qed

end
